theory Spec2Isabelle
  imports Complex_Main
begin

section \<open>Regular expressions of the request classifier\<close>

text \<open>
  \<^verbatim>\<open>isMessageSendRequest\<close> (index.ts, lines 77-94) tests the path against three
  regular expressions with \<^verbatim>\<open>path.match(...)\<close>. The expressions use literal
  characters, the negated class \<^verbatim>\<open>[^\/]\<close>, the quantifiers \<^verbatim>\<open>+\<close> and \<^verbatim>\<open>?\<close>, a
  non-capturing group and the end anchor \<^verbatim>\<open>$\<close>. None of them has a start anchor.
  A regular expression is a value of \<open>regex\<close>; whether a string belongs to it is
  decided by taking derivatives, character by character.
\<close>

datatype regex =
    Never
  | Empty
  | Chr char
  | NotChr char
  | Seq regex regex
  | Alt regex regex
  | Star regex

definition Opt :: "regex \<Rightarrow> regex" where
  \<comment> \<open>the quantifier \<^verbatim>\<open>?\<close>\<close>
  "Opt r = Alt r Empty"

definition Plus :: "regex \<Rightarrow> regex" where
  \<comment> \<open>the quantifier \<^verbatim>\<open>+\<close>\<close>
  "Plus r = Seq r (Star r)"

fun lit :: "string \<Rightarrow> regex" where
  \<comment> \<open>a run of literal characters\<close>
  "lit [] = Empty"
| "lit (c # cs) = Seq (Chr c) (lit cs)"

fun nullable :: "regex \<Rightarrow> bool" where
  "nullable Never = False"
| "nullable Empty = True"
| "nullable (Chr c) = False"
| "nullable (NotChr c) = False"
| "nullable (Seq r s) = (nullable r \<and> nullable s)"
| "nullable (Alt r s) = (nullable r \<or> nullable s)"
| "nullable (Star r) = True"

fun deriv :: "char \<Rightarrow> regex \<Rightarrow> regex" where
  "deriv x Never = Never"
| "deriv x Empty = Never"
| "deriv x (Chr c) = (if x = c then Empty else Never)"
| "deriv x (NotChr c) = (if x = c then Never else Empty)"
| "deriv x (Seq r s) =
     (if nullable r then Alt (Seq (deriv x r) s) (deriv x s) else Seq (deriv x r) s)"
| "deriv x (Alt r s) = Alt (deriv x r) (deriv x s)"
| "deriv x (Star r) = Seq (deriv x r) (Star r)"

fun matches :: "regex \<Rightarrow> string \<Rightarrow> bool" where
  \<comment> \<open>the whole string belongs to the expression\<close>
  "matches r [] = nullable r"
| "matches r (x # xs) = matches (deriv x r) xs"

fun match_to_end :: "regex \<Rightarrow> string \<Rightarrow> bool" where
  \<comment> \<open>\<^verbatim>\<open>s.match(/r$/)\<close> is not null: the search may start at any index of the
      string, and \<^verbatim>\<open>$\<close> (no \<^verbatim>\<open>m\<close> flag) holds at the end of the string only\<close>
  "match_to_end r [] = matches r []"
| "match_to_end r (x # xs) = (matches r (x # xs) \<or> match_to_end r xs)"

subsection \<open>The three expressions of the source\<close>

definition agent_re :: regex where
  \<comment> \<open>\<^verbatim>\<open>/\/v1\/agents\/[^\/]+\/messages(?:\/stream)?\/?$/\<close>, without its \<^verbatim>\<open>$\<close>\<close>
  "agent_re =
     Seq (lit ''/v1/agents/'')
       (Seq (Plus (NotChr CHR ''/''))
         (Seq (lit ''/messages'')
           (Seq (Opt (lit ''/stream'')) (Opt (Chr CHR ''/'')))))"

definition group_re :: regex where
  \<comment> \<open>\<^verbatim>\<open>/\/v1\/groups\/[^\/]+\/messages(?:\/stream)?\/?$/\<close>, without its \<^verbatim>\<open>$\<close>\<close>
  "group_re =
     Seq (lit ''/v1/groups/'')
       (Seq (Plus (NotChr CHR ''/''))
         (Seq (lit ''/messages'')
           (Seq (Opt (lit ''/stream'')) (Opt (Chr CHR ''/'')))))"

definition batch_re :: regex where
  \<comment> \<open>\<^verbatim>\<open>/\/v1\/messages\/batches\/?$/\<close>, without its \<^verbatim>\<open>$\<close>\<close>
  "batch_re = Seq (lit ''/v1/messages/batches'') (Opt (Chr CHR ''/''))"

definition isMessageSendRequest :: "string \<Rightarrow> string \<Rightarrow> bool" where
  "isMessageSendRequest path method =
     (if match_to_end agent_re path \<and> method = ''POST'' then True
      else if match_to_end group_re path \<and> method = ''POST'' then True
      else if match_to_end batch_re path \<and> method = ''POST'' then True
      else False)"

subsection \<open>The language of a regular expression\<close>

inductive_set kleene :: "string set \<Rightarrow> string set" for A :: "string set" where
  kleene_nil: "[] \<in> kleene A"
| kleene_app: "u \<in> A \<Longrightarrow> v \<in> kleene A \<Longrightarrow> u @ v \<in> kleene A"

fun lang :: "regex \<Rightarrow> string set" where
  "lang Never = {}"
| "lang Empty = {[]}"
| "lang (Chr c) = {[c]}"
| "lang (NotChr c) = {[d] |d. d \<noteq> c}"
| "lang (Seq r s) = {u @ v |u v. u \<in> lang r \<and> v \<in> lang s}"
| "lang (Alt r s) = lang r \<union> lang s"
| "lang (Star r) = kleene (lang r)"

subsection \<open>The path patterns as the specification words them\<close>

definition segment :: "string \<Rightarrow> bool" where
  \<comment> \<open>\<^verbatim>\<open>{id}\<close>: a non-empty path segment with no slash in it\<close>
  "segment i = (i \<noteq> [] \<and> CHR ''/'' \<notin> set i)"

definition message_tails :: "string list" where
  \<comment> \<open>\<^verbatim>\<open>/messages\<close> or \<^verbatim>\<open>/messages/stream\<close>, each with an optional trailing slash\<close>
  "message_tails = [''/messages'', ''/messages/'', ''/messages/stream'', ''/messages/stream/'']"

definition is_agent_path :: "string \<Rightarrow> bool" where
  "is_agent_path p = (\<exists>i t. segment i \<and> t \<in> set message_tails \<and> p = ''/v1/agents/'' @ i @ t)"

definition is_group_path :: "string \<Rightarrow> bool" where
  "is_group_path p = (\<exists>i t. segment i \<and> t \<in> set message_tails \<and> p = ''/v1/groups/'' @ i @ t)"

definition is_batch_path :: "string \<Rightarrow> bool" where
  "is_batch_path p = (p = ''/v1/messages/batches'' \<or> p = ''/v1/messages/batches/'')"

definition is_message_path :: "string \<Rightarrow> bool" where
  \<comment> \<open>the three rules of the specification's section 4.1, the path taken whole\<close>
  "is_message_path p = (is_agent_path p \<or> is_group_path p \<or> is_batch_path p)"

section \<open>Values, headers and messages\<close>

text \<open>
  A JavaScript exception is the left summand of a sum, carrying the message of the
  \<^verbatim>\<open>Error\<close>; \<^verbatim>\<open>undefined\<close> is \<open>None\<close>.
\<close>

datatype json =
    JNull
  | JBool bool
  | JNum rat
  | JStr string
  | JArr "json list"
  | JObj "(string \<times> json) list"

fun truthy :: "json \<Rightarrow> bool" where
  \<comment> \<open>the falsy values are \<^verbatim>\<open>null\<close>, \<^verbatim>\<open>false\<close>, \<^verbatim>\<open>0\<close> and the empty string\<close>
  "truthy JNull = False"
| "truthy (JBool b) = b"
| "truthy (JNum n) = (n \<noteq> 0)"
| "truthy (JStr s) = (s \<noteq> [])"
| "truthy (JArr xs) = True"
| "truthy (JObj kvs) = True"

fun truthy_str :: "string option \<Rightarrow> bool" where
  \<comment> \<open>a string that may be \<^verbatim>\<open>undefined\<close> or \<^verbatim>\<open>null\<close>, used as a condition\<close>
  "truthy_str None = False"
| "truthy_str (Some s) = (s \<noteq> [])"

fun js_prop :: "string \<Rightarrow> json option \<Rightarrow> json option" where
  \<comment> \<open>\<^verbatim>\<open>v?.k\<close> for a name \<open>k\<close> that no prototype defines (\<^verbatim>\<open>messages\<close>, \<^verbatim>\<open>content\<close>):
      only an object can have it\<close>
  "js_prop k (Some (JObj kvs)) = map_of kvs k"
| "js_prop k _ = None"

fun js_index0 :: "json option \<Rightarrow> json option" where
  \<comment> \<open>\<^verbatim>\<open>v?.[0]\<close>: the first element of an array, the first character of a string,
      the property \<^verbatim>\<open>"0"\<close> of an object\<close>
  "js_index0 (Some (JArr xs)) = (case xs of [] \<Rightarrow> None | x # _ \<Rightarrow> Some x)"
| "js_index0 (Some (JStr s)) = (case s of [] \<Rightarrow> None | c # _ \<Rightarrow> Some (JStr [c]))"
| "js_index0 (Some (JObj kvs)) = map_of kvs ''0''"
| "js_index0 _ = None"

fun starts_with :: "string \<Rightarrow> string \<Rightarrow> bool" where
  "starts_with [] s = True"
| "starts_with (n # ns) [] = False"
| "starts_with (n # ns) (x # xs) = (n = x \<and> starts_with ns xs)"

fun str_includes :: "string \<Rightarrow> string \<Rightarrow> bool" where
  \<comment> \<open>\<^verbatim>\<open>s.includes(n)\<close>, the searched-for string first\<close>
  "str_includes n [] = (n = [])"
| "str_includes n (x # xs) = (starts_with n (x # xs) \<or> str_includes n xs)"

type_synonym headers = "(string \<times> string) list"

definition lower_char :: "char \<Rightarrow> char" where
  "lower_char c =
     (case map_of (zip ''ABCDEFGHIJKLMNOPQRSTUVWXYZ'' ''abcdefghijklmnopqrstuvwxyz'') c of
        Some d \<Rightarrow> d
      | None \<Rightarrow> c)"

definition same_name :: "string \<Rightarrow> string \<Rightarrow> bool" where
  \<comment> \<open>header names are compared without regard to case\<close>
  "same_name a b = (map lower_char a = map lower_char b)"

fun join_values :: "string list \<Rightarrow> string" where
  "join_values [] = []"
| "join_values [v] = v"
| "join_values (v # vs) = v @ '', '' @ join_values vs"

definition headers_get :: "string \<Rightarrow> headers \<Rightarrow> string option" where
  \<comment> \<open>\<^verbatim>\<open>Headers.get\<close>: \<^verbatim>\<open>null\<close> when no header has the name, else the values joined\<close>
  "headers_get name hs =
     (case filter (\<lambda>(n, v). same_name n name) hs of
        [] \<Rightarrow> None
      | kv # kvs \<Rightarrow> Some (join_values (map snd (kv # kvs))))"

definition headers_has :: "string \<Rightarrow> headers \<Rightarrow> bool" where
  "headers_has name hs = list_ex (\<lambda>(n, v). same_name n name) hs"

definition headers_delete :: "string \<Rightarrow> headers \<Rightarrow> headers" where
  "headers_delete name hs = filter (\<lambda>(n, v). \<not> same_name n name) hs"

fun replace_first :: "string \<Rightarrow> string \<Rightarrow> headers \<Rightarrow> headers" where
  "replace_first name v [] = []"
| "replace_first name v ((n, x) # hs) =
     (if same_name n name then (n, v) # headers_delete name hs
      else (n, x) # replace_first name v hs)"

definition headers_set :: "string \<Rightarrow> string \<Rightarrow> headers \<Rightarrow> headers" where
  \<comment> \<open>\<^verbatim>\<open>Headers.set\<close>: the first header of that name takes the value and the others
      go; a new name is appended\<close>
  "headers_set name v hs =
     (if headers_has name hs then replace_first name v hs else hs @ [(name, v)])"

datatype body =
    NoBody
  | TextBody string
  | FormBody "(string \<times> string) list"
  | BufferBody string

record request =
  req_method :: string
  req_path :: string
  req_query :: string
  req_headers :: headers
  req_body :: string

text \<open>
  \<open>req_path\<close> is \<^verbatim>\<open>c.req.path\<close>, which in Hono is the pathname of the request URL: it
  stops before the \<^verbatim>\<open>?\<close>. \<open>req_query\<close> is the query string of \<^verbatim>\<open>req.url\<close>, which
  \<^verbatim>\<open>forwardRequest\<close> reads only to log it. \<open>req_body\<close> is the body as sent; its bytes
  stand for the text they encode.
\<close>

record call =
  call_url :: string
  call_method :: string
  call_headers :: headers
  call_body :: body

record response =
  res_status :: nat
  res_headers :: headers
  res_body :: string

definition ok :: "response \<Rightarrow> bool" where
  \<comment> \<open>\<^verbatim>\<open>Response.ok\<close>\<close>
  "ok r = (200 \<le> res_status r \<and> res_status r \<le> 299)"

record config =
  LETTA_API_URL :: string
  LETTA_API_KEY :: "string option"
  WEBHOOK_URL :: "string option"
  WEBHOOK_SECRET :: "string option"

text \<open>
  What the program does not decide is a parameter of the model: the built-in
  \<^verbatim>\<open>JSON.parse\<close>, \<^verbatim>\<open>JSON.stringify\<close>, \<^verbatim>\<open>new URL(path, base)\<close> (its \<^verbatim>\<open>href\<close>) and
  \<^verbatim>\<open>Request.formData\<close>, the upstream server and the webhook target as \<^verbatim>\<open>fetch\<close>
  reaches them (\<open>Inl\<close>: the promise rejects), and the clock, whose \<open>n\<close>-th reading
  within a request is \<open>clock w n\<close>.
\<close>

record world =
  JSON_parse :: "string \<Rightarrow> string + json"
  JSON_stringify :: "json \<Rightarrow> string"
  URL_new :: "string \<Rightarrow> string \<Rightarrow> string + string"
  formData :: "headers \<Rightarrow> string \<Rightarrow> string + (string \<times> string) list"
  upstream :: "call \<Rightarrow> string + response"
  webhook_target :: "call \<Rightarrow> string + response"
  clock :: "nat \<Rightarrow> string"

datatype message =
    Request_received
  | Is_message_request bool
  | Webhook_URL_not_configured
  | Webhook_failed_with_status nat string
  | Webhook_sent_successfully nat
  | Error_sending_webhook string
  | Error_processing_webhook_data string
  | Proxy_request_error string

datatype event =
    ConsoleLog message
  | ConsoleError message
  | UpstreamFetch call
  | ResponseClone
  | ResponseJson
  | WebhookFetch call

text \<open>
  \<open>ResponseClone\<close> is \<^verbatim>\<open>response.clone()\<close>, which reads nothing; \<open>ResponseJson\<close> is
  the read of the upstream response's body by \<^verbatim>\<open>responseClone.json()\<close>. The outcome
  of a handler is its response, what it did in order, and the payload it handed to
  \<^verbatim>\<open>sendWebhook\<close>, if it called it.
\<close>

record outcome =
  out_response :: response
  out_trace :: "event list"
  out_webhook :: "json option"

section \<open>The proxy\<close>

definition sendWebhook_headers :: "config \<Rightarrow> headers" where
  \<comment> \<open>index.ts, lines 46-53\<close>
  "sendWebhook_headers cfg =
     (let headers = [(''Content-Type'', ''application/json'')] in
      case WEBHOOK_SECRET cfg of
        None \<Rightarrow> headers
      | Some secret \<Rightarrow>
          if secret \<noteq> [] then headers @ [(''X-Webhook-Secret'', secret)] else headers)"

definition sendWebhook :: "config \<Rightarrow> world \<Rightarrow> json \<Rightarrow> event list" where
  \<comment> \<open>index.ts, lines 39-69\<close>
  "sendWebhook cfg w payload =
     (case WEBHOOK_URL cfg of
        None \<Rightarrow> [ConsoleLog Webhook_URL_not_configured]
      | Some url \<Rightarrow>
          if url = [] then [ConsoleLog Webhook_URL_not_configured]
          else
            (let c = \<lparr>call_url = url, call_method = ''POST'',
                      call_headers = sendWebhook_headers cfg,
                      call_body = TextBody (JSON_stringify w payload)\<rparr>
             in WebhookFetch c #
                (case webhook_target w c of
                   Inl e \<Rightarrow> [ConsoleError (Error_sending_webhook e)]
                 | Inr r \<Rightarrow>
                     if \<not> ok r
                     then [ConsoleError (Webhook_failed_with_status (res_status r) (res_body r))]
                     else [ConsoleLog (Webhook_sent_successfully (res_status r))])))"

definition remove_headers :: "config \<Rightarrow> headers \<Rightarrow> headers" where
  \<comment> \<open>index.ts, lines 123-143: the header rewriting of \<^verbatim>\<open>forwardRequest\<close>\<close>
  "remove_headers cfg h0 =
     (let h1 = (if truthy_str (headers_get ''host'' h0) then headers_delete ''host'' h0 else h0);
          h2 = (if truthy_str (headers_get ''connection'' h1)
                then headers_delete ''connection'' h1 else h1);
          h3 = (if truthy_str (headers_get ''content-length'' h2)
                then headers_delete ''content-length'' h2 else h2);
          h4 = (if headers_has ''Authorization'' h3
                then headers_delete ''Authorization'' h3 else h3)
      in case LETTA_API_KEY cfg of
           None \<Rightarrow> h4
         | Some key \<Rightarrow>
             if key \<noteq> [] then headers_set ''Authorization'' (''Bearer '' @ key) h4 else h4)"

definition content_type :: "headers \<Rightarrow> string" where
  \<comment> \<open>\<^verbatim>\<open>req.headers.get("content-type") || ""\<close>\<close>
  "content_type hs = (case headers_get ''content-type'' hs of None \<Rightarrow> '''' | Some v \<Rightarrow> v)"

definition read_body :: "world \<Rightarrow> string \<Rightarrow> headers \<Rightarrow> string \<Rightarrow> string + body \<times> string option" where
  \<comment> \<open>index.ts, lines 145-162: the pair of \<^verbatim>\<open>body\<close> and \<^verbatim>\<open>bodyText\<close>\<close>
  "read_body w method hs raw =
     (if method \<noteq> ''GET'' \<and> method \<noteq> ''HEAD'' then
        (let contentType = content_type hs
         in if str_includes ''application/json'' contentType then
              (let bodyText = raw in
               case JSON_parse w bodyText of
                 Inl e \<Rightarrow> Inl e
               | Inr v \<Rightarrow> Inr (TextBody (JSON_stringify w v), Some bodyText))
            else if str_includes ''multipart/form-data'' contentType then
              (case formData w hs raw of
                 Inl e \<Rightarrow> Inl e
               | Inr f \<Rightarrow> Inr (FormBody f, None))
            else Inr (BufferBody raw, None))
      else Inr (NoBody, None))"

definition response_data :: "world \<Rightarrow> bool \<Rightarrow> response \<Rightarrow> string \<times> event list + json \<times> event list \<times> nat" where
  \<comment> \<open>index.ts, lines 174-188: \<^verbatim>\<open>responseBody\<close>, what was done to get it and the number
      of clock readings so far; \<open>Inl\<close> when \<^verbatim>\<open>responseClone.json()\<close> throws\<close>
  "response_data w isStreamResponse res =
     (if isStreamResponse
      then Inr (JObj [(''type'', JStr ''stream_started''),
                      (''timestamp'', JStr (clock w 0))], [ResponseClone], 1)
      else (case JSON_parse w (res_body res) of
              Inl e \<Rightarrow> Inl (e, [ResponseClone, ResponseJson])
            | Inr v \<Rightarrow> Inr (v, [ResponseClone, ResponseJson], 0)))"

definition webhook_data ::
  "world \<Rightarrow> string \<Rightarrow> string \<Rightarrow> response \<Rightarrow> string \<Rightarrow> string \<times> event list + json \<times> event list" where
  \<comment> \<open>index.ts, lines 174-206: the inner \<^verbatim>\<open>try\<close> block up to the payload; \<open>Inl\<close> when
      it throws\<close>
  "webhook_data w path method res bodyText =
     (let isStreamResponse = str_includes ''/stream'' path in
      case response_data w isStreamResponse res of
        Inl err \<Rightarrow> Inl err
      | Inr (responseBody, tr, n) \<Rightarrow>
          (case JSON_parse w bodyText of
             Inl e \<Rightarrow> Inl (e, tr)
           | Inr requestBody \<Rightarrow>
               (let content = js_prop ''content'' (js_index0 (js_prop ''messages'' (Some requestBody)));
                    userMessage = (case content of
                                     None \<Rightarrow> JStr ''''
                                   | Some v \<Rightarrow> if truthy v then v else JStr '''')
                in Inr (JObj [(''type'', JStr (if isStreamResponse then ''stream_started''
                                                else ''message_sent'')),
                              (''timestamp'', JStr (clock w n)),
                              (''prompt'', userMessage),
                              (''request'', JObj [(''path'', JStr path),
                                                  (''method'', JStr method),
                                                  (''body'', requestBody)]),
                              (''response'', responseBody)], tr))))"

definition trigger_webhook ::
  "world \<Rightarrow> string \<Rightarrow> string \<Rightarrow> bool \<Rightarrow> response \<Rightarrow> string option \<Rightarrow> event list \<times> json option" where
  \<comment> \<open>index.ts, lines 171-211\<close>
  "trigger_webhook w path method isMessageRequest res bodyText =
     (if isMessageRequest \<and> ok res \<and> truthy_str bodyText then
        (case bodyText of
           None \<Rightarrow> ([], None)
         | Some text \<Rightarrow>
             (case webhook_data w path method res text of
                Inl (e, tr) \<Rightarrow> (tr @ [ConsoleError (Error_processing_webhook_data e)], None)
              | Inr (payload, tr) \<Rightarrow> (tr, Some payload)))
      else ([], None))"

definition proxy_error :: "world \<Rightarrow> string \<Rightarrow> response" where
  \<comment> \<open>index.ts, lines 216-219\<close>
  "proxy_error w details =
     \<lparr>res_status = 500,
      res_headers = [(''content-type'', ''application/json'')],
      res_body = JSON_stringify w (JObj [(''error'', JStr ''Proxy error''),
                                          (''details'', JStr details)])\<rparr>"

definition forward_try ::
  "config \<Rightarrow> world \<Rightarrow> request \<Rightarrow> bool \<Rightarrow> string \<times> event list + response \<times> event list \<times> json option" where
  \<comment> \<open>index.ts, lines 120-213: the outer \<^verbatim>\<open>try\<close> block; \<open>Inl\<close> when it throws\<close>
  "forward_try cfg w req isMessageRequest =
     (case URL_new w (req_path req) (LETTA_API_URL cfg) of
        Inl e \<Rightarrow> Inl (e, [])
      | Inr targetUrl \<Rightarrow>
          (let headers = remove_headers cfg (req_headers req) in
           case read_body w (req_method req) headers (req_body req) of
             Inl e \<Rightarrow> Inl (e, [])
           | Inr (body, bodyText) \<Rightarrow>
               (let c = \<lparr>call_url = targetUrl, call_method = req_method req,
                         call_headers = headers, call_body = body\<rparr>
                in case upstream w c of
                     Inl e \<Rightarrow> Inl (e, [UpstreamFetch c])
                   | Inr res \<Rightarrow>
                       (case trigger_webhook w (req_path req) (req_method req)
                               isMessageRequest res bodyText of
                          (tr, payload) \<Rightarrow> Inr (res, UpstreamFetch c # tr, payload)))))"

definition forwardRequest :: "config \<Rightarrow> world \<Rightarrow> request \<Rightarrow> outcome" where
  \<comment> \<open>index.ts, lines 96-221\<close>
  "forwardRequest cfg w req =
     (let isMessageRequest = isMessageSendRequest (req_path req) (req_method req);
          logged = [ConsoleLog Request_received,
                    ConsoleLog (Is_message_request isMessageRequest)]
      in case forward_try cfg w req isMessageRequest of
           Inl (e, tr) \<Rightarrow>
             \<lparr>out_response = proxy_error w e,
              out_trace = logged @ tr @ [ConsoleError (Proxy_request_error e)],
              out_webhook = None\<rparr>
         | Inr (res, tr, payload) \<Rightarrow>
             \<lparr>out_response = res, out_trace = logged @ tr, out_webhook = payload\<rparr>)"

definition app_all :: "config \<Rightarrow> world \<Rightarrow> request \<Rightarrow> outcome" where
  \<comment> \<open>index.ts, lines 223-228\<close>
  "app_all cfg w req =
     (if req_method req = ''OPTIONS''
      then \<lparr>out_response = \<lparr>res_status = 204, res_headers = [], res_body = ''''\<rparr>,
            out_trace = [], out_webhook = None\<rparr>
      else forwardRequest cfg w req)"

subsection \<open>The CORS middleware\<close>

record cors_options =
  origin :: string
  allowMethods :: "string list"
  allowHeaders :: "string list"
  exposeHeaders :: "string list"
  credentials :: bool
  maxAge :: "string option"

definition cors_config :: cors_options where
  \<comment> \<open>index.ts, lines 25-32; \<open>maxAge\<close> is the number as \<^verbatim>\<open>toString\<close> prints it\<close>
  "cors_config =
     \<lparr>origin = ''*'',
      allowMethods = [''GET'', ''POST'', ''PUT'', ''DELETE'', ''OPTIONS'', ''PATCH''],
      allowHeaders = [''*''],
      exposeHeaders = [''*''],
      credentials = True,
      maxAge = Some ''86400''\<rparr>"

fun join_comma :: "string list \<Rightarrow> string" where
  \<comment> \<open>\<^verbatim>\<open>xs.join(',')\<close>\<close>
  "join_comma [] = []"
| "join_comma [v] = v"
| "join_comma (v # vs) = v @ '','' @ join_comma vs"

definition cors_common :: "cors_options \<Rightarrow> request \<Rightarrow> headers" where
  \<comment> \<open>Modelled from the spec: the code of the middleware \<^verbatim>\<open>cors\<close> (imported at line 4
      from \<^verbatim>\<open>hono/cors\<close>) is not among the sources of the repository. These are the headers of the CORS policy
      of section 6 that go on every response, for an \<open>origin\<close> option that is one
      string\<close>
  "cors_common opts req =
     (let h0 = [];
          h1 = (if origin opts = ''*''
                then headers_set ''Access-Control-Allow-Origin'' ''*'' h0
                else if headers_get ''origin'' (req_headers req) = Some (origin opts)
                        \<and> origin opts \<noteq> []
                then headers_set ''Access-Control-Allow-Origin'' (origin opts) h0
                else h0);
          h2 = (if origin opts \<noteq> ''*'' then headers_set ''Vary'' ''Origin'' h1 else h1);
          h3 = (if credentials opts
                then headers_set ''Access-Control-Allow-Credentials'' ''true'' h2 else h2)
      in if exposeHeaders opts \<noteq> []
         then headers_set ''Access-Control-Expose-Headers'' (join_comma (exposeHeaders opts)) h3
         else h3)"

definition cors_preflight :: "cors_options \<Rightarrow> request \<Rightarrow> headers" where
  \<comment> \<open>Modelled from the spec: the code of the middleware \<^verbatim>\<open>cors\<close> is not among the sources of the repository.
      These are the headers of its answer to \<^verbatim>\<open>OPTIONS\<close> (sections 4.6 and 6: origin,
      methods, headers, credentials, max-age), for an \<open>allowHeaders\<close> option that is
      not empty\<close>
  "cors_preflight opts req =
     (let h0 = cors_common opts req;
          h1 = (case maxAge opts of
                  None \<Rightarrow> h0
                | Some age \<Rightarrow> headers_set ''Access-Control-Max-Age'' age h0);
          h2 = (if allowMethods opts \<noteq> []
                then headers_set ''Access-Control-Allow-Methods'' (join_comma (allowMethods opts)) h1
                else h1);
          h3 = (if allowHeaders opts \<noteq> []
                then headers_set ''Access-Control-Allow-Headers'' (join_comma (allowHeaders opts)) h2
                     @ [(''Vary'', ''Access-Control-Request-Headers'')]
                else h2)
      in headers_delete ''Content-Type'' (headers_delete ''Content-Length'' h3))"

definition merge_headers :: "headers \<Rightarrow> headers \<Rightarrow> headers" where
  \<comment> \<open>Modelled from the spec: the code of the middleware \<^verbatim>\<open>cors\<close> is not among the sources of the repository.
      The headers of the policy are set on the response the handler returned\<close>
  "merge_headers set_before hs = fold (\<lambda>(k, v). headers_set k v) set_before hs"

definition cors :: "cors_options \<Rightarrow> (request \<Rightarrow> outcome) \<Rightarrow> request \<Rightarrow> outcome" where
  \<comment> \<open>Modelled from the spec: the code of the middleware \<^verbatim>\<open>cors(opts)\<close>, registered at
      line 23 around the rest of the application, is not among the sources of the repository. By section 4.6
      an \<^verbatim>\<open>OPTIONS\<close> request is intercepted before it reaches the forwarder and answered
      with 204 and the CORS headers: \<open>next\<close> is not called there\<close>
  "cors opts next req =
     (if req_method req = ''OPTIONS''
      then \<lparr>out_response = \<lparr>res_status = 204, res_headers = cors_preflight opts req,
                             res_body = ''''\<rparr>,
            out_trace = [], out_webhook = None\<rparr>
      else (let out = next req;
                res = out_response out
            in out\<lparr>out_response :=
                     res\<lparr>res_headers := merge_headers (cors_common opts req) (res_headers res)\<rparr>\<rparr>))"

definition app_fetch :: "config \<Rightarrow> world \<Rightarrow> request \<Rightarrow> response \<times> event list" where
  \<comment> \<open>\<^verbatim>\<open>app.fetch\<close>: the middleware of line 23, then the handler of line 223. The call
      of \<^verbatim>\<open>sendWebhook\<close> is not awaited: the response is formed without it, and what
      it does comes after\<close>
  "app_fetch cfg w req =
     (let out = cors cors_config (app_all cfg w) req
      in (out_response out,
          out_trace out @
            (case out_webhook out of None \<Rightarrow> [] | Some payload \<Rightarrow> sendWebhook cfg w payload)))"

subsection \<open>Before and after the response\<close>





fun upstream_calls :: "event list \<Rightarrow> call list" where
  "upstream_calls [] = []"
| "upstream_calls (UpstreamFetch c # es) = c # upstream_calls es"
| "upstream_calls (e # es) = upstream_calls es"

fun webhook_calls :: "event list \<Rightarrow> call list" where
  "webhook_calls [] = []"
| "webhook_calls (WebhookFetch c # es) = c # webhook_calls es"
| "webhook_calls (e # es) = webhook_calls es"

subsection \<open>What a run got hold of\<close>

definition captured_text :: "config \<Rightarrow> world \<Rightarrow> request \<Rightarrow> string option" where
  \<comment> \<open>\<^verbatim>\<open>bodyText\<close> of \<^verbatim>\<open>forwardRequest\<close>, once the body has been read\<close>
  "captured_text cfg w req =
     (case read_body w (req_method req) (remove_headers cfg (req_headers req)) (req_body req) of
        Inl e \<Rightarrow> None
      | Inr (body, bodyText) \<Rightarrow> bodyText)"

definition upstream_response :: "config \<Rightarrow> world \<Rightarrow> request \<Rightarrow> response option" where
  \<comment> \<open>\<^verbatim>\<open>response\<close> of \<^verbatim>\<open>forwardRequest\<close>, when the \<^verbatim>\<open>fetch\<close> of line 164 was reached
      and returned one\<close>
  "upstream_response cfg w req =
     (case forward_try cfg w req (isMessageSendRequest (req_path req) (req_method req)) of
        Inl err \<Rightarrow> None
      | Inr (res, tr, payload) \<Rightarrow> Some res)"

definition target_as_specified :: "string \<Rightarrow> request \<Rightarrow> string" where
  \<comment> \<open>the target as the specification words it:
      \<^verbatim>\<open><upstream-base><original-path>?<original-query>\<close>\<close>
  "target_as_specified base req =
     base @ req_path req @ (if req_query req = [] then [] else ''?'' @ req_query req)"

definition message_content :: "json \<Rightarrow> json option" where
  \<comment> \<open>\<^verbatim>\<open>requestBody?.messages?.[0]?.content\<close>\<close>
  "message_content requestBody =
     js_prop ''content'' (js_index0 (js_prop ''messages'' (Some requestBody)))"

fun is_string :: "json \<Rightarrow> bool" where
  "is_string (JStr s) = True"
| "is_string v = False"



section \<open>A configuration, a world and some requests\<close>

text \<open>
  The configuration of the README, with an API key. The world's \<open>JSON_parse\<close> reads
  the four JSON texts used below as \<^verbatim>\<open>JSON.parse\<close> does and rejects the two texts used
  below that are no JSON (\<^verbatim>\<open>{"messages":\<close> and \<^verbatim>\<open>OK\<close>); its \<open>URL_new\<close> is
  \<^verbatim>\<open>new URL(path, base).href\<close> for a base that is an origin (\<^verbatim>\<open>http://host:port\<close>) and
  a plain absolute path. The upstream answers every call with \<^verbatim>\<open>200 {"id":"m1"}\<close>; the
  webhook target answers 200.
\<close>

definition demo_config :: config where
  "demo_config =
     \<lparr>LETTA_API_URL = ''http://192.168.50.90:8283'',
      LETTA_API_KEY = Some ''sk-letta'',
      WEBHOOK_URL = Some ''http://192.168.50.90:5005/webhook'',
      WEBHOOK_SECRET = None\<rparr>"

definition hi_body :: json where
  "hi_body = JObj [(''messages'', JArr [JObj [(''content'', JStr ''hi'')]])]"

definition parts_body :: json where
  "parts_body =
     JObj [(''messages'',
            JArr [JObj [(''content'',
                         JArr [JObj [(''type'', JStr ''text''), (''text'', JStr ''hi'')]])]])]"

definition demo_parse :: "string \<Rightarrow> string + json" where
  \<open>demo_parse s =
     (if s = ''{"messages":[{"content":"hi"}]}'' then Inr hi_body
      else if s = ''{"messages": [{"content": "hi"}]}'' then Inr hi_body
      else if s = ''{"messages":[{"content":[{"type":"text","text":"hi"}]}]}'' then Inr parts_body
      else if s = ''{"id":"m1"}'' then Inr (JObj [(''id'', JStr ''m1'')])
      else Inl ''Unexpected token'')\<close>

fun digits :: "nat \<Rightarrow> string" where
  "digits n =
     (if n < 10 then [''0123456789'' ! n]
      else digits (n div 10) @ [''0123456789'' ! (n mod 10)])"

definition quote :: "string \<Rightarrow> string" where
  "quote s = CHR 0x22 # s @ [CHR 0x22]"

fun stringify :: "json \<Rightarrow> string" where
  \<comment> \<open>\<^verbatim>\<open>JSON.stringify\<close> for values whose strings need no escape and whose numbers
      are integers\<close>
  "stringify JNull = ''null''"
| "stringify (JBool b) = (if b then ''true'' else ''false'')"
| "stringify (JNum n) = (if n < 0 then ''-'' else []) @ digits (nat \<bar>\<lfloor>n\<rfloor>\<bar>)"
| "stringify (JStr s) = quote s"
| "stringify (JArr xs) = ''['' @ join_comma (map stringify xs) @ '']''"
| "stringify (JObj kvs) =
     ''{'' @ join_comma (map (\<lambda>(k, v). quote k @ '':'' @ stringify v) kvs) @ ''}''"

definition demo_world :: world where
  \<open>demo_world =
     \<lparr>JSON_parse = demo_parse,
      JSON_stringify = stringify,
      URL_new = (\<lambda>path base. Inr (base @ path)),
      formData = (\<lambda>hs raw. Inr []),
      upstream = (\<lambda>c. Inr \<lparr>res_status = 200,
                            res_headers = [(''content-type'', ''application/json'')],
                            res_body = ''{"id":"m1"}''\<rparr>),
      webhook_target = (\<lambda>c. Inr \<lparr>res_status = 200, res_headers = [], res_body = ''''\<rparr>),
      clock = (\<lambda>n. if n = 0 then ''2026-01-01T00:00:00.000Z''
                    else ''2026-01-01T00:00:00.001Z'')\<rparr>\<close>

definition plain_upstream :: "call \<Rightarrow> string + response" where
  \<comment> \<open>an upstream that answers 200 with a body that is no JSON\<close>
  "plain_upstream c =
     Inr \<lparr>res_status = 200, res_headers = [(''content-type'', ''text/plain'')], res_body = ''OK''\<rparr>"

definition not_found_upstream :: "call \<Rightarrow> string + response" where
  \<comment> \<open>an upstream that answers 404\<close>
  "not_found_upstream c = Inr \<lparr>res_status = 404, res_headers = [], res_body = ''Not Found''\<rparr>"


definition json_headers :: headers where
  "json_headers = [(''Content-Type'', ''application/json'')]"

definition hi_request :: request where
  \<open>hi_request =
     \<lparr>req_method = ''POST'', req_path = ''/v1/agents/agent-123/messages'', req_query = '''',
      req_headers = json_headers, req_body = ''{"messages":[{"content":"hi"}]}''\<rparr>\<close>

definition spaced_request :: request where
  \<open>spaced_request =
     \<lparr>req_method = ''POST'', req_path = ''/v1/agents/agent-123/messages'', req_query = '''',
      req_headers = [(''Content-Type'', ''application/json; charset=utf-8'')],
      req_body = ''{"messages": [{"content": "hi"}]}''\<rparr>\<close>

definition stream_request :: request where
  \<open>stream_request =
     \<lparr>req_method = ''POST'', req_path = ''/v1/groups/g1/messages/stream'', req_query = '''',
      req_headers = json_headers, req_body = ''{"messages":[{"content":"hi"}]}''\<rparr>\<close>

definition parts_request :: request where
  \<open>parts_request =
     \<lparr>req_method = ''POST'', req_path = ''/v1/agents/agent-123/messages'', req_query = '''',
      req_headers = json_headers,
      req_body = ''{"messages":[{"content":[{"type":"text","text":"hi"}]}]}''\<rparr>\<close>

definition broken_request :: request where
  \<open>broken_request =
     \<lparr>req_method = ''POST'', req_path = ''/v1/agents/agent-123/messages'', req_query = '''',
      req_headers = json_headers, req_body = ''{"messages":''\<rparr>\<close>

definition list_request :: request where
  \<comment> \<open>\<^verbatim>\<open>GET /v1/agents?limit=5\<close>\<close>
  "list_request =
     \<lparr>req_method = ''GET'', req_path = ''/v1/agents'', req_query = ''limit=5'',
      req_headers = [(''accept'', ''application/json'')], req_body = ''''\<rparr>"

definition empty_connection_request :: request where
  \<comment> \<open>\<^verbatim>\<open>GET /v1/agents\<close> with a \<^verbatim>\<open>Connection\<close> header whose value is empty\<close>
  "empty_connection_request =
     \<lparr>req_method = ''GET'', req_path = ''/v1/agents'', req_query = '''',
      req_headers = [(''connection'', ''''), (''accept'', ''application/json'')],
      req_body = ''''\<rparr>"

definition options_request :: request where
  "options_request =
     \<lparr>req_method = ''OPTIONS'', req_path = ''/v1/agents/agent-123/messages'', req_query = '''',
      req_headers = [(''origin'', ''http://localhost:3000'')], req_body = ''''\<rparr>"

section \<open>Correctness of the matcher\<close>

lemma nullable_lang: "nullable r = ([] \<in> lang r)"
  by (induction r) (auto intro: kleene.intros)

lemma kleene_cons_split:
  assumes "w \<in> kleene A" and "w = x # xs"
  shows "\<exists>u v. x # u \<in> A \<and> v \<in> kleene A \<and> xs = u @ v"
  using assms
proof (induction arbitrary: xs rule: kleene.induct)
  case kleene_nil
  then show ?case by simp
next
  case (kleene_app u v)
  show ?case
  proof (cases u)
    case Nil
    with kleene_app show ?thesis by simp
  next
    case (Cons y ys)
    with kleene_app have "x # ys \<in> A" "xs = ys @ v" by auto
    with kleene_app.hyps(2) show ?thesis by blast
  qed
qed

lemma deriv_lang: "(w \<in> lang (deriv x r)) = (x # w \<in> lang r)"
proof (induction r arbitrary: w)
  case (Seq r s)
  have "(x # w \<in> lang (Seq r s)) =
        ((\<exists>u v. x # u \<in> lang r \<and> v \<in> lang s \<and> w = u @ v) \<or> ([] \<in> lang r \<and> x # w \<in> lang s))"
    by (auto simp: Cons_eq_append_conv append_eq_Cons_conv)
  with Seq show ?case
    by (auto simp: nullable_lang)
next
  case (Star r)
  have "(x # w \<in> kleene (lang r)) = (\<exists>u v. x # u \<in> lang r \<and> v \<in> kleene (lang r) \<and> w = u @ v)"
  proof
    assume "x # w \<in> kleene (lang r)"
    then show "\<exists>u v. x # u \<in> lang r \<and> v \<in> kleene (lang r) \<and> w = u @ v"
      using kleene_cons_split by blast
  next
    assume "\<exists>u v. x # u \<in> lang r \<and> v \<in> kleene (lang r) \<and> w = u @ v"
    then obtain u v where "x # u \<in> lang r" "v \<in> kleene (lang r)" "w = u @ v" by blast
    then show "x # w \<in> kleene (lang r)"
      using kleene_app [of "x # u" "lang r" v] by simp
  qed
  with Star show ?case by auto
qed auto

lemma matches_lang: "matches r w = (w \<in> lang r)"
  by (induction w arbitrary: r) (simp_all add: nullable_lang deriv_lang)

lemma match_to_end_iff: "match_to_end r s = (\<exists>pre w. s = pre @ w \<and> w \<in> lang r)"
proof (induction s)
  case Nil
  then show ?case by (simp add: matches_lang)
next
  case (Cons x xs)
  have "(\<exists>pre w. x # xs = pre @ w \<and> w \<in> lang r) =
        (x # xs \<in> lang r \<or> (\<exists>pre w. xs = pre @ w \<and> w \<in> lang r))"
    by (auto simp: Cons_eq_append_conv)
  with Cons show ?case by (simp add: matches_lang)
qed

subsection \<open>What the three expressions accept\<close>

lemma lang_lit: "lang (lit w) = {w}"
  by (induction w) auto

lemma lang_Opt: "lang (Opt r) = insert [] (lang r)"
  by (auto simp: Opt_def)

lemma lang_Seq_image: "lang (Seq r s) = (\<Union>u\<in>lang r. (@) u ` lang s)"
  by auto

lemma kleene_singletons: "kleene {[d] |d. d \<noteq> c} = {w. c \<notin> set w}"
proof (intro set_eqI iffI)
  fix w assume "w \<in> kleene {[d] |d. d \<noteq> c}"
  then show "w \<in> {w. c \<notin> set w}"
    by (induction rule: kleene.induct) auto
next
  fix w assume "w \<in> {w. c \<notin> set w}"
  then show "w \<in> kleene {[d] |d. d \<noteq> c}"
  proof (induction w)
    case Nil
    show ?case by (rule kleene_nil)
  next
    case (Cons x xs)
    then have "[x] \<in> {[d] |d. d \<noteq> c}" "xs \<in> kleene {[d] |d. d \<noteq> c}" by auto
    then have "[x] @ xs \<in> kleene {[d] |d. d \<noteq> c}" by (rule kleene_app)
    then show ?case by simp
  qed
qed

lemma lang_Plus_NotChr: "lang (Plus (NotChr c)) = {w. w \<noteq> [] \<and> c \<notin> set w}"
proof (intro set_eqI iffI)
  fix w assume "w \<in> lang (Plus (NotChr c))"
  then show "w \<in> {w. w \<noteq> [] \<and> c \<notin> set w}"
    by (auto simp: Plus_def kleene_singletons)
next
  fix w assume "w \<in> {w. w \<noteq> [] \<and> c \<notin> set w}"
  then obtain d v where "w = [d] @ v" "d \<noteq> c" "c \<notin> set v"
    by (cases w) auto
  then show "w \<in> lang (Plus (NotChr c))"
    unfolding Plus_def lang.simps kleene_singletons by blast
qed

lemma lang_tail:
  "lang (Seq (lit ''/messages'') (Seq (Opt (lit ''/stream'')) (Opt (Chr CHR ''/'')))) =
   set message_tails"
  unfolding lang_Seq_image lang_lit lang_Opt message_tails_def lang.simps
  by auto

lemma lang_agent_re: "(w \<in> lang agent_re) = is_agent_path w"
  unfolding agent_re_def is_agent_path_def segment_def
  apply (subst lang.simps(5))
  apply (subst lang.simps(5))
  unfolding lang_tail lang_Plus_NotChr lang_lit
  by auto

lemma lang_group_re: "(w \<in> lang group_re) = is_group_path w"
  unfolding group_re_def is_group_path_def segment_def
  apply (subst lang.simps(5))
  apply (subst lang.simps(5))
  unfolding lang_tail lang_Plus_NotChr lang_lit
  by auto

lemma lang_batch_re: "(w \<in> lang batch_re) = is_batch_path w"
  unfolding batch_re_def is_batch_path_def lang_Seq_image lang_lit lang_Opt lang.simps
  by auto

section \<open>The classifier\<close>

text \<open>
  C1, as amended. \<^verbatim>\<open>isMessageSendRequest\<close> returns true exactly when the method is
  \<^verbatim>\<open>POST\<close> and the path \<^emph>\<open>ends with\<close> one of the patterns of section 4.1:
  \<^verbatim>\<open>/v1/agents/{id}/messages\<close>, \<^verbatim>\<open>/v1/agents/{id}/messages/stream\<close>, the same two
  under \<^verbatim>\<open>/v1/groups\<close>, or \<^verbatim>\<open>/v1/messages/batches\<close>, each with an optional trailing
  slash, \<^verbatim>\<open>{id}\<close> a non-empty segment without a slash. Whatever precedes the pattern
  in the path is not looked at, since the expressions have no start anchor; every
  other input gives false.
\<close>

theorem isMessageSendRequest_suffix:
  "isMessageSendRequest path method =
     (method = ''POST'' \<and> (\<exists>pre p. path = pre @ p \<and> is_message_path p))"
  unfolding isMessageSendRequest_def match_to_end_iff lang_agent_re lang_group_re lang_batch_re
    is_message_path_def
  by auto

theorem isMessageSendRequest_suffix_witness:
  "isMessageSendRequest ''/v1/groups/g1/messages/stream/'' ''POST'' \<and>
   (\<exists>pre p. ''/v1/groups/g1/messages/stream/'' = pre @ p \<and> is_message_path p) \<and>
   \<not> isMessageSendRequest ''/v1/agents/agent-123'' ''POST''"
proof -
  have "isMessageSendRequest ''/v1/groups/g1/messages/stream/'' ''POST''"
    by (simp add: isMessageSendRequest_def group_re_def agent_re_def Plus_def Opt_def)
  moreover have "\<not> isMessageSendRequest ''/v1/agents/agent-123'' ''POST''"
    by (simp add: isMessageSendRequest_def group_re_def agent_re_def batch_re_def
        Plus_def Opt_def)
  ultimately show ?thesis
    using isMessageSendRequest_suffix [of "''/v1/groups/g1/messages/stream/''" "''POST''"]
    by blast
qed

text \<open>
  C1 as the specification states it takes the path whole. A path with something
  before \<^verbatim>\<open>/v1\<close> is no path of section 4.1, and the classifier tracks it.
\<close>

theorem isMessageSendRequest_prefix_counterexample:
  "isMessageSendRequest ''/api/v1/agents/a1/messages'' ''POST'' \<noteq>
     (''POST'' = ''POST'' \<and> is_message_path ''/api/v1/agents/a1/messages'')"
proof -
  have "isMessageSendRequest ''/api/v1/agents/a1/messages'' ''POST''"
    by (simp add: isMessageSendRequest_def agent_re_def Plus_def Opt_def)
  moreover have "\<not> is_message_path ''/api/v1/agents/a1/messages''"
    by (simp add: is_message_path_def is_agent_path_def is_group_path_def is_batch_path_def)
  ultimately show ?thesis by simp
qed


section \<open>Headers\<close>

lemma same_name_refl [simp]: "same_name a a" by (simp add: same_name_def)

lemma filter_name_delete:
  "\<not> same_name a b \<Longrightarrow>
   filter (\<lambda>(n, v). same_name n a) (headers_delete b hs) = filter (\<lambda>(n, v). same_name n a) hs"
  unfolding headers_delete_def filter_filter
  by (rule filter_cong) (auto simp: same_name_def)

lemma headers_get_delete_other:
  "\<not> same_name a b \<Longrightarrow> headers_get a (headers_delete b hs) = headers_get a hs"
  by (simp add: headers_get_def filter_name_delete)

lemma headers_get_delete_same: "headers_get a (headers_delete a hs) = None"
proof -
  have "filter (\<lambda>(n, v). same_name n a) (headers_delete a hs) = []"
    unfolding headers_delete_def filter_filter by (induction hs) auto
  then show ?thesis by (simp add: headers_get_def)
qed

lemma headers_has_get: "headers_has a hs = (headers_get a hs \<noteq> None)"
  by (induction hs) (auto simp: headers_has_def headers_get_def split: list.splits)

lemma filter_name_replace_first:
  "\<not> same_name a b \<Longrightarrow>
   filter (\<lambda>(n, v). same_name n a) (replace_first b x hs) = filter (\<lambda>(n, v). same_name n a) hs"
proof (induction hs)
  case Nil
  then show ?case by simp
next
  case (Cons h hs)
  obtain n v where h: "h = (n, v)" by (cases h)
  show ?case
  proof (cases "same_name n b")
    case True
    with Cons.prems have "\<not> same_name n a" by (auto simp: same_name_def)
    with True h Cons.prems show ?thesis by (simp add: filter_name_delete)
  next
    case False
    with h Cons show ?thesis by simp
  qed
qed

lemma headers_get_set_other:
  assumes "\<not> same_name a b"
  shows "headers_get a (headers_set b x hs) = headers_get a hs"
proof -
  from assms have "\<not> same_name b a" by (auto simp: same_name_def)
  with assms show ?thesis
    by (simp add: headers_get_def headers_set_def filter_name_replace_first)
qed

lemma headers_get_set_new:
  assumes "\<not> headers_has a hs"
  shows "headers_get a (headers_set a x hs) = Some x"
proof -
  from assms have "filter (\<lambda>(n, v). same_name n a) hs = []"
    by (induction hs) (auto simp: headers_has_def)
  with assms show ?thesis by (simp add: headers_get_def headers_set_def)
qed

lemma remove_headers_other:
  assumes "\<not> same_name a ''host''" "\<not> same_name a ''connection''"
    "\<not> same_name a ''content-length''" "\<not> same_name a ''Authorization''"
  shows "headers_get a (remove_headers cfg hs) = headers_get a hs"
  using assms
  by (simp add: remove_headers_def Let_def headers_get_delete_other headers_get_set_other
      split: option.splits)

lemma remove_headers_content_type:
  "headers_get ''content-type'' (remove_headers cfg hs) = headers_get ''content-type'' hs"
  by (rule remove_headers_other) (simp_all add: same_name_def lower_char_def)


section \<open>What a run of the forwarder does\<close>

lemma upstream_calls_append: "upstream_calls (xs @ ys) = upstream_calls xs @ upstream_calls ys"
  by (induction xs rule: upstream_calls.induct) auto

lemma webhook_calls_append: "webhook_calls (xs @ ys) = webhook_calls xs @ webhook_calls ys"
  by (induction xs rule: webhook_calls.induct) auto

lemma content_type_remove_headers:
  "content_type (remove_headers cfg hs) = content_type hs"
  by (simp add: content_type_def remove_headers_content_type)

lemma upstream_calls_trigger_webhook:
  "upstream_calls (fst (trigger_webhook w p m b res t)) = []"
  by (auto simp: trigger_webhook_def webhook_data_def response_data_def Let_def
      upstream_calls_append split: option.splits sum.splits prod.splits if_splits)

lemma webhook_calls_trigger_webhook:
  "webhook_calls (fst (trigger_webhook w p m b res t)) = []"
  by (auto simp: trigger_webhook_def webhook_data_def response_data_def Let_def
      webhook_calls_append split: option.splits sum.splits prod.splits if_splits)

lemma upstream_calls_forwardRequest:
  "upstream_calls (out_trace (forwardRequest cfg w req)) =
     (case URL_new w (req_path req) (LETTA_API_URL cfg) of
        Inl e \<Rightarrow> []
      | Inr u \<Rightarrow>
          (case read_body w (req_method req) (remove_headers cfg (req_headers req)) (req_body req) of
             Inl e \<Rightarrow> []
           | Inr (b, t) \<Rightarrow>
               [\<lparr>call_url = u, call_method = req_method req,
                 call_headers = remove_headers cfg (req_headers req), call_body = b\<rparr>]))"
proof -
  have tw: "\<And>res t tr pl. trigger_webhook w (req_path req) (req_method req)
              (isMessageSendRequest (req_path req) (req_method req)) res t = (tr, pl) \<Longrightarrow>
            upstream_calls tr = []"
    using upstream_calls_trigger_webhook by (metis fst_conv)
  show ?thesis
    by (auto simp: forwardRequest_def forward_try_def Let_def upstream_calls_append tw
        split: sum.splits prod.splits)
qed

lemma webhook_calls_forwardRequest:
  "webhook_calls (out_trace (forwardRequest cfg w req)) = []"
proof -
  have tw: "\<And>res t tr pl. trigger_webhook w (req_path req) (req_method req)
              (isMessageSendRequest (req_path req) (req_method req)) res t = (tr, pl) \<Longrightarrow>
            webhook_calls tr = []"
    using webhook_calls_trigger_webhook by (metis fst_conv)
  show ?thesis
    by (auto simp: forwardRequest_def forward_try_def Let_def webhook_calls_append tw
        split: sum.splits prod.splits)
qed

lemma captured_text_cases:
  "captured_text cfg w req =
     (if req_method req \<noteq> ''GET'' \<and> req_method req \<noteq> ''HEAD'' \<and>
         str_includes ''application/json'' (content_type (req_headers req))
      then (case JSON_parse w (req_body req) of Inl e \<Rightarrow> None | Inr v \<Rightarrow> Some (req_body req))
      else None)"
  by (auto simp: captured_text_def read_body_def Let_def content_type_remove_headers
      split: sum.splits)

section \<open>A JSON body that does not parse\<close>

lemma read_body_malformed:
  assumes "method \<noteq> ''GET''" "method \<noteq> ''HEAD''"
    and "headers_get ''content-type'' hs = Some ct" "str_includes ''application/json'' ct"
    and "JSON_parse w raw = Inl e"
  shows "read_body w method hs raw = Inl e"
  using assms by (simp add: read_body_def content_type_def)

lemma forward_try_malformed:
  assumes "req_method req \<noteq> ''GET''" "req_method req \<noteq> ''HEAD''"
    and "headers_get ''content-type'' (req_headers req) = Some ct"
    and "str_includes ''application/json'' ct"
    and "JSON_parse w (req_body req) = Inl e"
  shows "\<exists>details. forward_try cfg w req b = Inl (details, [])"
proof (cases "URL_new w (req_path req) (LETTA_API_URL cfg)")
  case (Inl a)
  then show ?thesis by (simp add: forward_try_def)
next
  case (Inr u)
  have "read_body w (req_method req) (remove_headers cfg (req_headers req)) (req_body req) = Inl e"
    using assms by (intro read_body_malformed) (simp_all add: remove_headers_content_type)
  with Inr show ?thesis by (simp add: forward_try_def)
qed

text \<open>
  C5. A request handed to \<^verbatim>\<open>forwardRequest\<close> whose method is neither \<^verbatim>\<open>GET\<close> nor
  \<^verbatim>\<open>HEAD\<close>, whose \<^verbatim>\<open>content-type\<close> header contains \<^verbatim>\<open>application/json\<close> and whose
  body \<^verbatim>\<open>JSON.parse\<close> rejects, is answered with status 500 and the body
  \<^verbatim>\<open>{ error: "Proxy error", details }\<close> as JSON, and no call goes to the upstream.
  Every request but \<^verbatim>\<open>OPTIONS\<close> is handed to \<^verbatim>\<open>forwardRequest\<close>, and the client then
  receives that status and body.
\<close>

theorem forwardRequest_malformed_json:
  assumes "req_method req \<noteq> ''GET''" "req_method req \<noteq> ''HEAD''"
    and "headers_get ''content-type'' (req_headers req) = Some ct"
    and "str_includes ''application/json'' ct"
    and "JSON_parse w (req_body req) = Inl e"
  shows "\<exists>details.
           out_response (forwardRequest cfg w req) =
             \<lparr>res_status = 500,
              res_headers = [(''content-type'', ''application/json'')],
              res_body = JSON_stringify w (JObj [(''error'', JStr ''Proxy error''),
                                                  (''details'', JStr details)])\<rparr> \<and>
           upstream_calls (out_trace (forwardRequest cfg w req)) = [] \<and>
           (req_method req \<noteq> ''OPTIONS'' \<longrightarrow>
              res_status (fst (app_fetch cfg w req)) = 500 \<and>
              res_body (fst (app_fetch cfg w req)) =
                JSON_stringify w (JObj [(''error'', JStr ''Proxy error''),
                                        (''details'', JStr details)]) \<and>
              upstream_calls (snd (app_fetch cfg w req)) = [])"
proof -
  obtain details where
    d: "forward_try cfg w req (isMessageSendRequest (req_path req) (req_method req)) = Inl (details, [])"
    using forward_try_malformed [OF assms] by blast
  then have "out_response (forwardRequest cfg w req) = proxy_error w details"
    and "out_trace (forwardRequest cfg w req) =
           [ConsoleLog Request_received,
            ConsoleLog (Is_message_request (isMessageSendRequest (req_path req) (req_method req))),
            ConsoleError (Proxy_request_error details)]"
    and "out_webhook (forwardRequest cfg w req) = None"
    by (simp_all add: forwardRequest_def)
  then show ?thesis
    by (intro exI [of _ details])
      (simp add: proxy_error_def app_fetch_def cors_def app_all_def Let_def)
qed

text \<open>The request \<^verbatim>\<open>POST /v1/agents/agent-123/messages\<close> with the body \<^verbatim>\<open>{"messages":\<close>.\<close>

theorem forwardRequest_malformed_json_witness:
  "req_method broken_request \<noteq> ''GET'' \<and> req_method broken_request \<noteq> ''HEAD'' \<and>
   headers_get ''content-type'' (req_headers broken_request) = Some ''application/json'' \<and>
   JSON_parse demo_world (req_body broken_request) = Inl ''Unexpected token'' \<and>
   res_status (out_response (forwardRequest demo_config demo_world broken_request)) = 500 \<and>
   upstream_calls (out_trace (forwardRequest demo_config demo_world broken_request)) = [] \<and>
   res_status (fst (app_fetch demo_config demo_world broken_request)) = 500 \<and>
   upstream_calls (snd (app_fetch demo_config demo_world broken_request)) = []"
proof -
  have h: "req_method broken_request \<noteq> ''GET''" "req_method broken_request \<noteq> ''HEAD''"
    "headers_get ''content-type'' (req_headers broken_request) = Some ''application/json''"
    "str_includes ''application/json'' ''application/json''"
    "JSON_parse demo_world (req_body broken_request) = Inl ''Unexpected token''"
    by code_simp+
  have o: "req_method broken_request \<noteq> ''OPTIONS''"
    by code_simp
  from forwardRequest_malformed_json [OF h, of demo_config] h o
  show ?thesis by auto
qed

section \<open>The branches of the body\<close>

text \<open>
  C10. In \<^verbatim>\<open>forwardRequest\<close>, for a method that is neither \<^verbatim>\<open>GET\<close> nor \<^verbatim>\<open>HEAD\<close>, the
  branch is chosen by what the \<^verbatim>\<open>content-type\<close> header contains, first match first:
  if it contains \<^verbatim>\<open>application/json\<close> anywhere, the body sent upstream is
  \<^verbatim>\<open>JSON.stringify(JSON.parse(text))\<close> and the original text is kept for the webhook;
  else if it contains \<^verbatim>\<open>multipart/form-data\<close>, the decoded form is sent and no text
  is kept; else the bytes are sent as they came and no text is kept. (The target
  URL is taken to be well formed: with a malformed one nothing is sent at all.)
\<close>

theorem forwardRequest_body_branch:
  assumes "req_method req \<noteq> ''GET''" "req_method req \<noteq> ''HEAD''"
    and "URL_new w (req_path req) (LETTA_API_URL cfg) = Inr u"
  shows
    "(str_includes ''application/json'' (content_type (req_headers req)) \<longrightarrow>
        (\<forall>v. JSON_parse w (req_body req) = Inr v \<longrightarrow>
           map call_body (upstream_calls (out_trace (forwardRequest cfg w req))) =
             [TextBody (JSON_stringify w v)] \<and>
           captured_text cfg w req = Some (req_body req)) \<and>
        (\<forall>e. JSON_parse w (req_body req) = Inl e \<longrightarrow>
           upstream_calls (out_trace (forwardRequest cfg w req)) = [])) \<and>
     (\<not> str_includes ''application/json'' (content_type (req_headers req)) \<and>
      str_includes ''multipart/form-data'' (content_type (req_headers req)) \<longrightarrow>
        (\<forall>f. formData w (remove_headers cfg (req_headers req)) (req_body req) = Inr f \<longrightarrow>
           map call_body (upstream_calls (out_trace (forwardRequest cfg w req))) = [FormBody f]) \<and>
        captured_text cfg w req = None) \<and>
     (\<not> str_includes ''application/json'' (content_type (req_headers req)) \<and>
      \<not> str_includes ''multipart/form-data'' (content_type (req_headers req)) \<longrightarrow>
        map call_body (upstream_calls (out_trace (forwardRequest cfg w req))) =
          [BufferBody (req_body req)] \<and>
        captured_text cfg w req = None)"
  using assms
  by (simp add: upstream_calls_forwardRequest captured_text_cases read_body_def
      content_type_remove_headers Let_def)

text \<open>
  A \<^verbatim>\<open>content-type\<close> of \<^verbatim>\<open>application/json; charset=utf-8\<close> takes the JSON branch, and
  a body with spaces in it goes upstream without them: not the original text.
\<close>

theorem forwardRequest_body_branch_witness:
  "str_includes ''application/json'' (content_type (req_headers spaced_request)) \<and>
   content_type (req_headers spaced_request) = ''application/json; charset=utf-8'' \<and>
   map call_body (upstream_calls (out_trace (forwardRequest demo_config demo_world spaced_request))) =
     [TextBody (stringify hi_body)] \<and>
   stringify hi_body \<noteq> req_body spaced_request \<and>
   captured_text demo_config demo_world spaced_request = Some (req_body spaced_request)"
proof -
  have m: "req_method spaced_request \<noteq> ''GET''" "req_method spaced_request \<noteq> ''HEAD''"
    by (simp_all add: spaced_request_def)
  have u: "URL_new demo_world (req_path spaced_request) (LETTA_API_URL demo_config) =
             Inr (LETTA_API_URL demo_config @ req_path spaced_request)"
    by (simp add: demo_world_def)
  have ct: "content_type (req_headers spaced_request) = ''application/json; charset=utf-8''"
    by (simp add: spaced_request_def content_type_def headers_get_def same_name_def lower_char_def)
  have inc: "str_includes ''application/json'' ''application/json; charset=utf-8''"
    by simp
  have p: "JSON_parse demo_world (req_body spaced_request) = Inr hi_body"
    by (simp add: demo_world_def demo_parse_def spaced_request_def)
  have s: "JSON_stringify demo_world = stringify"
    by (simp add: demo_world_def)
  have ne: "stringify hi_body \<noteq> req_body spaced_request"
    by (simp add: hi_body_def quote_def spaced_request_def)
  from forwardRequest_body_branch [OF m u] ct inc p s ne show ?thesis
    by simp
qed

section \<open>When the webhook is called\<close>

lemma webhook_data_Inr:
  "(\<exists>pl tr. webhook_data w p m res text = Inr (pl, tr)) =
     ((str_includes ''/stream'' p \<or> (\<exists>v. JSON_parse w (res_body res) = Inr v)) \<and>
      (\<exists>v. JSON_parse w text = Inr v))"
  by (auto simp: webhook_data_def response_data_def Let_def split: sum.splits prod.splits)

lemma trigger_webhook_Some:
  "(snd (trigger_webhook w p m b res t) \<noteq> None) =
     (b \<and> ok res \<and> truthy_str t \<and>
      (\<exists>text pl tr. t = Some text \<and> webhook_data w p m res text = Inr (pl, tr)))"
  by (cases t) (auto simp: trigger_webhook_def split: sum.splits prod.splits)

lemma captured_text_parses:
  "captured_text cfg w req = Some text \<Longrightarrow> \<exists>v. JSON_parse w text = Inr v"
  by (auto simp: captured_text_cases split: if_splits sum.splits)

lemma out_webhook_forwardRequest:
  "out_webhook (forwardRequest cfg w req) =
     (case upstream_response cfg w req of
        None \<Rightarrow> None
      | Some res \<Rightarrow>
          snd (trigger_webhook w (req_path req) (req_method req)
                 (isMessageSendRequest (req_path req) (req_method req)) res
                 (captured_text cfg w req)))"
  by (auto simp: forwardRequest_def upstream_response_def forward_try_def captured_text_def
      Let_def split: sum.splits prod.splits)


lemma webhook_triggered_iff:
  "(out_webhook (forwardRequest cfg w req) \<noteq> None) =
     (isMessageSendRequest (req_path req) (req_method req) \<and>
      (\<exists>res. upstream_response cfg w req = Some res \<and> ok res \<and>
             (str_includes ''/stream'' (req_path req) \<or>
              (\<exists>v. JSON_parse w (res_body res) = Inr v))) \<and>
      truthy_str (captured_text cfg w req))"
proof (cases "upstream_response cfg w req")
  case None
  then show ?thesis by (simp add: out_webhook_forwardRequest)
next
  case (Some res)
  then have o: "out_webhook (forwardRequest cfg w req) =
      snd (trigger_webhook w (req_path req) (req_method req)
             (isMessageSendRequest (req_path req) (req_method req)) res
             (captured_text cfg w req))"
    by (simp add: out_webhook_forwardRequest)
  have d: "(\<exists>bt pl tr. captured_text cfg w req = Some bt \<and>
               webhook_data w (req_path req) (req_method req) res bt = Inr (pl, tr)) =
           (captured_text cfg w req \<noteq> None \<and>
            (str_includes ''/stream'' (req_path req) \<or>
             (\<exists>v. JSON_parse w (res_body res) = Inr v)))"
    using captured_text_parses [of cfg w req] webhook_data_Inr [of w "req_path req" "req_method req" res]
    by (cases "captured_text cfg w req") auto
  have n: "truthy_str (captured_text cfg w req) \<Longrightarrow> captured_text cfg w req \<noteq> None"
    by (cases "captured_text cfg w req") auto
  show ?thesis
    unfolding o trigger_webhook_Some d using Some n by auto
qed

lemma webhook_calls_sendWebhook:
  "(webhook_calls (sendWebhook cfg w payload) \<noteq> []) = truthy_str (WEBHOOK_URL cfg)"
  by (auto simp: sendWebhook_def Let_def split: option.splits sum.splits)


lemma app_fetch_options:
  "req_method req = ''OPTIONS'' \<Longrightarrow>
   app_fetch cfg w req =
     (\<lparr>res_status = 204, res_headers = cors_preflight cors_config req, res_body = ''''\<rparr>, [])"
  by (simp add: app_fetch_def cors_def)

lemma app_fetch_forward:
  "req_method req \<noteq> ''OPTIONS'' \<Longrightarrow>
   app_fetch cfg w req =
     (out_response (forwardRequest cfg w req)
        \<lparr>res_headers := merge_headers (cors_common cors_config req)
                          (res_headers (out_response (forwardRequest cfg w req)))\<rparr>,
      out_trace (forwardRequest cfg w req) @
        (case out_webhook (forwardRequest cfg w req) of
           None \<Rightarrow> []
         | Some payload \<Rightarrow> sendWebhook cfg w payload))"
  by (simp add: app_fetch_def cors_def app_all_def Let_def)

lemma not_tracked_options: "\<not> isMessageSendRequest p ''OPTIONS''"
  by (simp add: isMessageSendRequest_def)

text \<open>
  C4, as amended. The webhook target is called exactly when the request is tracked,
  the upstream answered with a 2xx status, a non-empty JSON body text was captured,
  \<^emph>\<open>and\<close> a webhook URL is configured, \<^emph>\<open>and\<close> the payload could be built: either the
  path contains \<^verbatim>\<open>/stream\<close>, or the body of the upstream's response parses as JSON.
  In particular no call is made when the upstream's status is not 2xx.
\<close>

theorem webhook_dispatched_iff:
  "(webhook_calls (snd (app_fetch cfg w req)) \<noteq> []) =
     (isMessageSendRequest (req_path req) (req_method req) \<and>
      (\<exists>res. upstream_response cfg w req = Some res \<and> ok res \<and>
             (str_includes ''/stream'' (req_path req) \<or>
              (\<exists>v. JSON_parse w (res_body res) = Inr v))) \<and>
      truthy_str (captured_text cfg w req) \<and>
      truthy_str (WEBHOOK_URL cfg)) \<and>
   (\<forall>res. upstream_response cfg w req = Some res \<and> \<not> ok res \<longrightarrow>
      webhook_calls (snd (app_fetch cfg w req)) = [])"
proof -
  have called: "(webhook_calls (snd (app_fetch cfg w req)) \<noteq> []) =
     (isMessageSendRequest (req_path req) (req_method req) \<and>
      (\<exists>res. upstream_response cfg w req = Some res \<and> ok res \<and>
             (str_includes ''/stream'' (req_path req) \<or>
              (\<exists>v. JSON_parse w (res_body res) = Inr v))) \<and>
      truthy_str (captured_text cfg w req) \<and>
      truthy_str (WEBHOOK_URL cfg))"
  proof (cases "req_method req = ''OPTIONS''")
    case True
    then show ?thesis
      by (simp add: app_fetch_options not_tracked_options)
  next
    case False
    have "(webhook_calls (snd (app_fetch cfg w req)) \<noteq> []) =
            (out_webhook (forwardRequest cfg w req) \<noteq> None \<and> truthy_str (WEBHOOK_URL cfg))"
      using False
      by (auto simp: app_fetch_forward webhook_calls_append webhook_calls_forwardRequest
          webhook_calls_sendWebhook split: option.splits)
    then show ?thesis
      unfolding webhook_triggered_iff by blast
  qed
  then have "\<forall>res. upstream_response cfg w req = Some res \<and> \<not> ok res \<longrightarrow>
      webhook_calls (snd (app_fetch cfg w req)) = []"
    by auto
  with called show ?thesis by blast
qed

text \<open>
  \<^verbatim>\<open>POST /v1/agents/agent-123/messages\<close> with \<^verbatim>\<open>{"messages":[{"content":"hi"}]}\<close>, answered
  \<^verbatim>\<open>200 {"id":"m1"}\<close>: the webhook is called. Answered 404, it is not.
\<close>

theorem webhook_dispatched_iff_witness:
  "isMessageSendRequest (req_path hi_request) (req_method hi_request) \<and>
   map_option res_status (upstream_response demo_config demo_world hi_request) = Some 200 \<and>
   truthy_str (captured_text demo_config demo_world hi_request) \<and>
   truthy_str (WEBHOOK_URL demo_config) \<and>
   webhook_calls (snd (app_fetch demo_config demo_world hi_request)) \<noteq> [] \<and>
   map_option res_status
     (upstream_response demo_config (demo_world\<lparr>upstream := not_found_upstream\<rparr>) hi_request) =
     Some 404 \<and>
   webhook_calls
     (snd (app_fetch demo_config (demo_world\<lparr>upstream := not_found_upstream\<rparr>) hi_request)) = []"
proof -
  let ?nf = "demo_world\<lparr>upstream := not_found_upstream\<rparr>"
  have t: "isMessageSendRequest (req_path hi_request) (req_method hi_request)"
    by code_simp
  have r: "upstream_response demo_config demo_world hi_request =
             Some \<lparr>res_status = 200, res_headers = [(''content-type'', ''application/json'')],
                   res_body = stringify (JObj [(''id'', JStr ''m1'')])\<rparr>"
    by code_simp
  have p: "JSON_parse demo_world (stringify (JObj [(''id'', JStr ''m1'')])) =
             Inr (JObj [(''id'', JStr ''m1'')])"
    by code_simp
  have c: "truthy_str (captured_text demo_config demo_world hi_request)"
    by code_simp
  have u: "truthy_str (WEBHOOK_URL demo_config)"
    by code_simp
  have n: "upstream_response demo_config ?nf hi_request =
             Some \<lparr>res_status = 404, res_headers = [], res_body = ''Not Found''\<rparr>"
    by code_simp
  have "webhook_calls (snd (app_fetch demo_config demo_world hi_request)) \<noteq> []"
    using webhook_dispatched_iff [of demo_config demo_world hi_request] t r p c u
    by (simp add: ok_def)
  moreover have "webhook_calls (snd (app_fetch demo_config ?nf hi_request)) = []"
    using webhook_dispatched_iff [of demo_config ?nf hi_request] n
    by (simp add: ok_def)
  ultimately show ?thesis
    using t r c u n by simp
qed

text \<open>
  C4 as the specification states it fails when the upstream answers a tracked
  request with status 200 and a body that is no JSON: all three conditions hold, a
  webhook URL is configured, and \<^verbatim>\<open>sendWebhook\<close> is never called.
\<close>

theorem webhook_not_dispatched_counterexample:
  "isMessageSendRequest (req_path hi_request) (req_method hi_request) \<and>
   map_option res_status
     (upstream_response demo_config (demo_world\<lparr>upstream := plain_upstream\<rparr>) hi_request) =
     Some 200 \<and>
   captured_text demo_config (demo_world\<lparr>upstream := plain_upstream\<rparr>) hi_request =
     Some (req_body hi_request) \<and>
   truthy_str (WEBHOOK_URL demo_config) \<and>
   out_webhook (forwardRequest demo_config (demo_world\<lparr>upstream := plain_upstream\<rparr>) hi_request) =
     None \<and>
   webhook_calls (snd (app_fetch demo_config (demo_world\<lparr>upstream := plain_upstream\<rparr>) hi_request)) =
     []"
  by code_simp

section \<open>The payload of the webhook\<close>

lemma out_trace_forwardRequest:
  "out_trace (forwardRequest cfg w req) =
     [ConsoleLog Request_received,
      ConsoleLog (Is_message_request (isMessageSendRequest (req_path req) (req_method req)))] @
     (case forward_try cfg w req (isMessageSendRequest (req_path req) (req_method req)) of
        Inl (e, tr) \<Rightarrow> tr @ [ConsoleError (Proxy_request_error e)]
      | Inr (res, tr, payload) \<Rightarrow> tr)"
  by (simp add: forwardRequest_def Let_def split: sum.splits prod.splits)

lemma trigger_webhook_payload:
  assumes "trigger_webhook w p m b res t = (tr, Some payload)"
  shows "b \<and> ok res \<and>
    (\<exists>text requestBody. t = Some text \<and> JSON_parse w text = Inr requestBody \<and>
       js_prop ''prompt'' (Some payload) =
         Some (case message_content requestBody of
                 None \<Rightarrow> JStr ''''
               | Some v \<Rightarrow> if truthy v then v else JStr '''')) \<and>
    (if str_includes ''/stream'' p
     then js_prop ''type'' (Some payload) = Some (JStr ''stream_started'') \<and>
          js_prop ''response'' (Some payload) =
            Some (JObj [(''type'', JStr ''stream_started''),
                        (''timestamp'', JStr (clock w 0))]) \<and>
          tr = [ResponseClone]
     else js_prop ''type'' (Some payload) = Some (JStr ''message_sent'') \<and>
          (\<exists>v. JSON_parse w (res_body res) = Inr v \<and>
               js_prop ''response'' (Some payload) = Some v))"
  using assms
  by (auto simp: trigger_webhook_def webhook_data_def response_data_def message_content_def
      Let_def split: if_splits option.splits sum.splits prod.splits)

lemma forwardRequest_payload:
  assumes "out_webhook (forwardRequest cfg w req) = Some payload"
  shows "\<exists>u b res tr.
     URL_new w (req_path req) (LETTA_API_URL cfg) = Inr u \<and>
     read_body w (req_method req) (remove_headers cfg (req_headers req)) (req_body req) =
       Inr (b, captured_text cfg w req) \<and>
     upstream_response cfg w req = Some res \<and>
     trigger_webhook w (req_path req) (req_method req)
       (isMessageSendRequest (req_path req) (req_method req)) res (captured_text cfg w req) =
       (tr, Some payload) \<and>
     out_trace (forwardRequest cfg w req) =
       [ConsoleLog Request_received,
        ConsoleLog (Is_message_request (isMessageSendRequest (req_path req) (req_method req))),
        UpstreamFetch \<lparr>call_url = u, call_method = req_method req,
                        call_headers = remove_headers cfg (req_headers req),
                        call_body = b\<rparr>] @ tr"
  using assms
  by (auto simp: forwardRequest_def forward_try_def upstream_response_def captured_text_def
      Let_def split: sum.splits prod.splits)

text \<open>
  C6. Whenever \<^verbatim>\<open>forwardRequest\<close> hands a payload to \<^verbatim>\<open>sendWebhook\<close>, the request is
  tracked, and it is treated as streaming exactly when its path contains \<^verbatim>\<open>/stream\<close>
  (\<^verbatim>\<open>path.includes('/stream')\<close>). Streaming: the payload's \<^verbatim>\<open>type\<close> is
  \<^verbatim>\<open>stream_started\<close>, its \<^verbatim>\<open>response\<close> is exactly \<^verbatim>\<open>{type: "stream_started", timestamp}\<close>, and
  the body of the upstream's response is never read (the response is cloned and the
  clone left alone). Otherwise: the \<^verbatim>\<open>type\<close> is \<^verbatim>\<open>message_sent\<close> and \<^verbatim>\<open>response\<close> is the body
  of the upstream's response parsed as JSON.
\<close>

theorem webhook_payload_stream:
  assumes "out_webhook (forwardRequest cfg w req) = Some payload"
  shows
    "isMessageSendRequest (req_path req) (req_method req) \<and>
     (if str_includes ''/stream'' (req_path req)
      then js_prop ''type'' (Some payload) = Some (JStr ''stream_started'') \<and>
           js_prop ''response'' (Some payload) =
             Some (JObj [(''type'', JStr ''stream_started''),
                         (''timestamp'', JStr (clock w 0))]) \<and>
           ResponseJson \<notin> set (out_trace (forwardRequest cfg w req))
      else js_prop ''type'' (Some payload) = Some (JStr ''message_sent'') \<and>
           (\<exists>res v. upstream_response cfg w req = Some res \<and>
                    JSON_parse w (res_body res) = Inr v \<and>
                    js_prop ''response'' (Some payload) = Some v))"
proof -
  from forwardRequest_payload [OF assms] obtain u b res tr where
    r: "upstream_response cfg w req = Some res"
    and t: "trigger_webhook w (req_path req) (req_method req)
              (isMessageSendRequest (req_path req) (req_method req)) res
              (captured_text cfg w req) = (tr, Some payload)"
    and tr: "out_trace (forwardRequest cfg w req) =
       [ConsoleLog Request_received,
        ConsoleLog (Is_message_request (isMessageSendRequest (req_path req) (req_method req))),
        UpstreamFetch \<lparr>call_url = u, call_method = req_method req,
                        call_headers = remove_headers cfg (req_headers req),
                        call_body = b\<rparr>] @ tr"
    by blast
  from trigger_webhook_payload [OF t] r tr show ?thesis
    by (auto split: if_splits)
qed

text \<open>A streaming and a plain request, both with a payload.\<close>

theorem webhook_payload_stream_witness:
  "out_webhook (forwardRequest demo_config demo_world stream_request) \<noteq> None \<and>
   str_includes ''/stream'' (req_path stream_request) \<and>
   js_prop ''type'' (out_webhook (forwardRequest demo_config demo_world stream_request)) =
     Some (JStr ''stream_started'') \<and>
   js_prop ''response'' (out_webhook (forwardRequest demo_config demo_world stream_request)) =
     Some (JObj [(''type'', JStr ''stream_started''),
                 (''timestamp'', JStr ''2026-01-01T00:00:00.000Z'')]) \<and>
   ResponseJson \<notin> set (out_trace (forwardRequest demo_config demo_world stream_request)) \<and>
   out_webhook (forwardRequest demo_config demo_world hi_request) \<noteq> None \<and>
   \<not> str_includes ''/stream'' (req_path hi_request) \<and>
   js_prop ''type'' (out_webhook (forwardRequest demo_config demo_world hi_request)) =
     Some (JStr ''message_sent'') \<and>
   js_prop ''response'' (out_webhook (forwardRequest demo_config demo_world hi_request)) =
     Some (JObj [(''id'', JStr ''m1'')])"
proof -
  obtain p where p: "out_webhook (forwardRequest demo_config demo_world stream_request) = Some p"
    by (cases "out_webhook (forwardRequest demo_config demo_world stream_request)")
      (simp_all, code_simp)
  have s: "str_includes ''/stream'' (req_path stream_request)"
    by code_simp
  have c: "clock demo_world 0 = ''2026-01-01T00:00:00.000Z''"
    by code_simp
  obtain q where q: "out_webhook (forwardRequest demo_config demo_world hi_request) = Some q"
    by (cases "out_webhook (forwardRequest demo_config demo_world hi_request)")
      (simp_all, code_simp)
  have n: "\<not> str_includes ''/stream'' (req_path hi_request)"
    by code_simp
  have r: "upstream_response demo_config demo_world hi_request =
             Some \<lparr>res_status = 200, res_headers = [(''content-type'', ''application/json'')],
                   res_body = stringify (JObj [(''id'', JStr ''m1'')])\<rparr>"
    by code_simp
  have v: "JSON_parse demo_world (stringify (JObj [(''id'', JStr ''m1'')])) =
             Inr (JObj [(''id'', JStr ''m1'')])"
    by code_simp
  from webhook_payload_stream [OF p] webhook_payload_stream [OF q] p q s c n r v
  show ?thesis by auto
qed

text \<open>
  C8, as amended. In every payload handed to \<^verbatim>\<open>sendWebhook\<close>, \<^verbatim>\<open>prompt\<close> is
  \<^verbatim>\<open>request.messages[0].content\<close> of the captured JSON body when that value is present
  and truthy, and the empty string when it is absent or falsy (\<^verbatim>\<open>null\<close>, \<^verbatim>\<open>false\<close>,
  \<^verbatim>\<open>0\<close>, \<^verbatim>\<open>""\<close>); absence is no error. So \<^verbatim>\<open>prompt\<close> equals the content whenever the
  content is a string, and is a string whenever the content is a string, absent or
  falsy; any other content is passed on as it is.
\<close>

theorem webhook_payload_prompt:
  assumes "out_webhook (forwardRequest cfg w req) = Some payload"
  shows
    "\<exists>requestBody.
       JSON_parse w (req_body req) = Inr requestBody \<and>
       js_prop ''prompt'' (Some payload) =
         Some (case message_content requestBody of
                 None \<Rightarrow> JStr ''''
               | Some v \<Rightarrow> if truthy v then v else JStr '''') \<and>
       (\<forall>s. message_content requestBody = Some (JStr s) \<longrightarrow>
            js_prop ''prompt'' (Some payload) = Some (JStr s)) \<and>
       (message_content requestBody = None \<longrightarrow>
            js_prop ''prompt'' (Some payload) = Some (JStr ''''))"
proof -
  from forwardRequest_payload [OF assms] obtain res tr where
    t: "trigger_webhook w (req_path req) (req_method req)
              (isMessageSendRequest (req_path req) (req_method req)) res
              (captured_text cfg w req) = (tr, Some payload)"
    by blast
  from trigger_webhook_payload [OF t] obtain bt requestBody where
    c: "captured_text cfg w req = Some bt" and p: "JSON_parse w bt = Inr requestBody"
    and m: "js_prop ''prompt'' (Some payload) =
         Some (case message_content requestBody of
                 None \<Rightarrow> JStr ''''
               | Some v \<Rightarrow> if truthy v then v else JStr '''')"
    by blast
  from c have "bt = req_body req"
    by (auto simp: captured_text_cases split: if_splits sum.splits)
  with p m show ?thesis
    by (intro exI [of _ requestBody]) auto
qed

text \<open>The content \<^verbatim>\<open>"hi"\<close> becomes the prompt.\<close>

theorem webhook_payload_prompt_witness:
  "out_webhook (forwardRequest demo_config demo_world hi_request) \<noteq> None \<and>
   JSON_parse demo_world (req_body hi_request) = Inr hi_body \<and>
   message_content hi_body = Some (JStr ''hi'') \<and>
   js_prop ''prompt'' (out_webhook (forwardRequest demo_config demo_world hi_request)) =
     Some (JStr ''hi'')"
proof -
  obtain q where q: "out_webhook (forwardRequest demo_config demo_world hi_request) = Some q"
    by (cases "out_webhook (forwardRequest demo_config demo_world hi_request)")
      (simp_all, code_simp)
  have p: "JSON_parse demo_world (req_body hi_request) = Inr hi_body"
    by code_simp
  have m: "message_content hi_body = Some (JStr ''hi'')"
    by code_simp
  from webhook_payload_prompt [OF q] p m q show ?thesis by auto
qed

text \<open>
  C8 as the specification states it says that \<^verbatim>\<open>prompt\<close> is always a string. A
  content that is a list of parts, \<^verbatim>\<open>[{"type":"text","text":"hi"}]\<close>, is the prompt as
  it is: an array.
\<close>

theorem webhook_payload_prompt_counterexample:
  "out_webhook (forwardRequest demo_config demo_world parts_request) \<noteq> None \<and>
   JSON_parse demo_world (req_body parts_request) = Inr parts_body \<and>
   message_content parts_body =
     Some (JArr [JObj [(''type'', JStr ''text''), (''text'', JStr ''hi'')]]) \<and>
   js_prop ''prompt'' (out_webhook (forwardRequest demo_config demo_world parts_request)) =
     Some (JArr [JObj [(''type'', JStr ''text''), (''text'', JStr ''hi'')]]) \<and>
   map_option is_string
     (js_prop ''prompt'' (out_webhook (forwardRequest demo_config demo_world parts_request))) =
     Some False"
  by code_simp

section \<open>Failures of the webhook\<close>





















lemma out_webhook_cors:
  "out_webhook (cors cors_config (app_all cfg w) req) =
     (if req_method req = ''OPTIONS'' then None else out_webhook (forwardRequest cfg w req))"
  by (simp add: cors_def app_all_def Let_def)











section \<open>The answer to OPTIONS\<close>

lemma cors_preflight_any_request:
  "cors_preflight cors_config req = cors_preflight cors_config options_request"
  by (simp add: cors_preflight_def cors_common_def cors_config_def)

lemma cors_preflight_options_request:
  "cors_preflight cors_config options_request =
     [(''Access-Control-Allow-Origin'', ''*''),
      (''Access-Control-Allow-Credentials'', ''true''),
      (''Access-Control-Expose-Headers'', ''*''),
      (''Access-Control-Max-Age'', ''86400''),
      (''Access-Control-Allow-Methods'', ''GET,POST,PUT,DELETE,OPTIONS,PATCH''),
      (''Access-Control-Allow-Headers'', ''*''),
      (''Vary'', ''Access-Control-Request-Headers'')]"
  by code_simp

lemma cors_preflight_gets:
  "headers_get ''Access-Control-Allow-Origin'' (cors_preflight cors_config options_request) =
     Some ''*''"
  "headers_get ''Access-Control-Allow-Methods'' (cors_preflight cors_config options_request) =
     Some ''GET,POST,PUT,DELETE,OPTIONS,PATCH''"
  "headers_get ''Access-Control-Allow-Headers'' (cors_preflight cors_config options_request) =
     Some ''*''"
  "headers_get ''Access-Control-Allow-Credentials'' (cors_preflight cors_config options_request) =
     Some ''true''"
  "headers_get ''Access-Control-Max-Age'' (cors_preflight cors_config options_request) =
     Some ''86400''"
  by code_simp+

lemma upstream_calls_sendWebhook: "upstream_calls (sendWebhook cfg w payload) = []"
  by (simp add: sendWebhook_def Let_def split: option.splits sum.splits)

lemma upstream_calls_app_fetch:
  assumes "req_method req \<noteq> ''OPTIONS''"
  shows "upstream_calls (snd (app_fetch cfg w req)) =
           upstream_calls (out_trace (forwardRequest cfg w req))"
  using assms
  by (simp add: app_fetch_forward upstream_calls_append upstream_calls_sendWebhook
      split: option.splits)

lemma forwardRequest_no_call:
  assumes "upstream_calls (out_trace (forwardRequest cfg w req)) = []"
  shows "\<exists>e. forwardRequest cfg w req =
               \<lparr>out_response = proxy_error w e,
                out_trace = [ConsoleLog Request_received,
                             ConsoleLog (Is_message_request
                               (isMessageSendRequest (req_path req) (req_method req))),
                             ConsoleError (Proxy_request_error e)],
                out_webhook = None\<rparr>"
  using assms
  by (auto simp: forwardRequest_def forward_try_def Let_def split: sum.splits prod.splits)

lemma app_fetch_no_call:
  assumes "req_method req \<noteq> ''OPTIONS''"
    and "upstream_calls (snd (app_fetch cfg w req)) = []"
  shows "\<exists>e. res_status (fst (app_fetch cfg w req)) = 500 \<and>
             res_body (fst (app_fetch cfg w req)) =
               JSON_stringify w (JObj [(''error'', JStr ''Proxy error''),
                                       (''details'', JStr e)]) \<and>
             snd (app_fetch cfg w req) =
               [ConsoleLog Request_received,
                ConsoleLog (Is_message_request
                  (isMessageSendRequest (req_path req) (req_method req))),
                ConsoleError (Proxy_request_error e)]"
proof -
  from assms have "upstream_calls (out_trace (forwardRequest cfg w req)) = []"
    by (simp add: upstream_calls_app_fetch)
  from forwardRequest_no_call [OF this] obtain e where
    "forwardRequest cfg w req =
       \<lparr>out_response = proxy_error w e,
        out_trace = [ConsoleLog Request_received,
                     ConsoleLog (Is_message_request
                       (isMessageSendRequest (req_path req) (req_method req))),
                     ConsoleError (Proxy_request_error e)],
        out_webhook = None\<rparr>"
    by blast
  with assms(1) show ?thesis
    by (simp add: app_fetch_forward proxy_error_def)
qed

text \<open>
  C9. For every path, configuration and state of the world, an \<^verbatim>\<open>OPTIONS\<close> request is
  answered with status 204, an empty body and the CORS headers: origin \<^verbatim>\<open>*\<close>, the
  methods \<^verbatim>\<open>GET,POST,PUT,DELETE,OPTIONS,PATCH\<close>, headers \<^verbatim>\<open>*\<close>, credentials \<^verbatim>\<open>true\<close>,
  max-age 86400; nothing else happens, so no call goes to the upstream, whatever the
  upstream would answer. The handler of lines 223-228 alone decides the status and
  that nothing is called; the headers are those of the middleware.

  It is the only branch that bypasses forwarding. For every other request the
  handler is \<^verbatim>\<open>forwardRequest\<close>: the client receives the status and the body of its
  response, everything the application does is what \<^verbatim>\<open>forwardRequest\<close> does, followed
  by the webhook when a payload was built, and it begins by logging the request.
  The forwarder issues exactly one call to the upstream, at the URL built from the
  path, with the method of the request, the rewritten headers and the body read
  from the request. No call is issued only when the forwarder itself has failed
  before it (the URL cannot be built or the body cannot be read): then its own error
  handler answers with status 500 and the error envelope and logs the error, and
  nothing else happens.
\<close>

theorem options_short_circuit:
  "(req_method req = ''OPTIONS'' \<longrightarrow>
      app_all cfg w req =
        \<lparr>out_response = \<lparr>res_status = 204, res_headers = [], res_body = ''''\<rparr>,
         out_trace = [], out_webhook = None\<rparr> \<and>
      app_fetch cfg w req =
        (\<lparr>res_status = 204, res_headers = cors_preflight cors_config req, res_body = ''''\<rparr>, []) \<and>
      upstream_calls (snd (app_fetch cfg w req)) = [] \<and>
      headers_get ''Access-Control-Allow-Origin'' (cors_preflight cors_config req) = Some ''*'' \<and>
      headers_get ''Access-Control-Allow-Methods'' (cors_preflight cors_config req) =
        Some ''GET,POST,PUT,DELETE,OPTIONS,PATCH'' \<and>
      headers_get ''Access-Control-Allow-Headers'' (cors_preflight cors_config req) = Some ''*'' \<and>
      headers_get ''Access-Control-Allow-Credentials'' (cors_preflight cors_config req) =
        Some ''true'' \<and>
      headers_get ''Access-Control-Max-Age'' (cors_preflight cors_config req) = Some ''86400'') \<and>
   (req_method req \<noteq> ''OPTIONS'' \<longrightarrow>
      app_all cfg w req = forwardRequest cfg w req \<and>
      res_status (fst (app_fetch cfg w req)) =
        res_status (out_response (forwardRequest cfg w req)) \<and>
      res_body (fst (app_fetch cfg w req)) =
        res_body (out_response (forwardRequest cfg w req)) \<and>
      snd (app_fetch cfg w req) =
        out_trace (forwardRequest cfg w req) @
          (case out_webhook (forwardRequest cfg w req) of
             None \<Rightarrow> []
           | Some payload \<Rightarrow> sendWebhook cfg w payload) \<and>
      (\<exists>tr. snd (app_fetch cfg w req) = out_trace (forwardRequest cfg w req) @ tr) \<and>
      (\<exists>tr. out_trace (forwardRequest cfg w req) = ConsoleLog Request_received # tr) \<and>
      upstream_calls (snd (app_fetch cfg w req)) =
        (case URL_new w (req_path req) (LETTA_API_URL cfg) of
           Inl e \<Rightarrow> []
         | Inr u \<Rightarrow>
             (case read_body w (req_method req) (remove_headers cfg (req_headers req))
                     (req_body req) of
                Inl e \<Rightarrow> []
              | Inr (b, t) \<Rightarrow>
                  [\<lparr>call_url = u, call_method = req_method req,
                    call_headers = remove_headers cfg (req_headers req), call_body = b\<rparr>])) \<and>
      (upstream_calls (snd (app_fetch cfg w req)) = [] \<longrightarrow>
         (\<exists>e. res_status (fst (app_fetch cfg w req)) = 500 \<and>
              res_body (fst (app_fetch cfg w req)) =
                JSON_stringify w (JObj [(''error'', JStr ''Proxy error''),
                                        (''details'', JStr e)]) \<and>
              snd (app_fetch cfg w req) =
                [ConsoleLog Request_received,
                 ConsoleLog (Is_message_request
                   (isMessageSendRequest (req_path req) (req_method req))),
                 ConsoleError (Proxy_request_error e)])))"
proof (cases "req_method req = ''OPTIONS''")
  case True
  then show ?thesis
    by (simp only: app_fetch_options cors_preflight_any_request [of req] cors_preflight_gets
        snd_conv upstream_calls.simps app_all_def) simp
next
  case False
  have calls: "upstream_calls (snd (app_fetch cfg w req)) =
        (case URL_new w (req_path req) (LETTA_API_URL cfg) of
           Inl e \<Rightarrow> []
         | Inr u \<Rightarrow>
             (case read_body w (req_method req) (remove_headers cfg (req_headers req))
                     (req_body req) of
                Inl e \<Rightarrow> []
              | Inr (b, t) \<Rightarrow>
                  [\<lparr>call_url = u, call_method = req_method req,
                    call_headers = remove_headers cfg (req_headers req), call_body = b\<rparr>]))"
    unfolding upstream_calls_app_fetch [OF False] by (rule upstream_calls_forwardRequest)
  have none: "upstream_calls (snd (app_fetch cfg w req)) = [] \<longrightarrow>
         (\<exists>e. res_status (fst (app_fetch cfg w req)) = 500 \<and>
              res_body (fst (app_fetch cfg w req)) =
                JSON_stringify w (JObj [(''error'', JStr ''Proxy error''),
                                        (''details'', JStr e)]) \<and>
              snd (app_fetch cfg w req) =
                [ConsoleLog Request_received,
                 ConsoleLog (Is_message_request
                   (isMessageSendRequest (req_path req) (req_method req))),
                 ConsoleError (Proxy_request_error e)])"
    using False app_fetch_no_call by blast
  have rest: "app_all cfg w req = forwardRequest cfg w req \<and>
      res_status (fst (app_fetch cfg w req)) =
        res_status (out_response (forwardRequest cfg w req)) \<and>
      res_body (fst (app_fetch cfg w req)) =
        res_body (out_response (forwardRequest cfg w req)) \<and>
      snd (app_fetch cfg w req) =
        out_trace (forwardRequest cfg w req) @
          (case out_webhook (forwardRequest cfg w req) of
             None \<Rightarrow> []
           | Some payload \<Rightarrow> sendWebhook cfg w payload) \<and>
      (\<exists>tr. snd (app_fetch cfg w req) = out_trace (forwardRequest cfg w req) @ tr) \<and>
      (\<exists>tr. out_trace (forwardRequest cfg w req) = ConsoleLog Request_received # tr)"
    using False by (simp add: app_fetch_forward out_trace_forwardRequest app_all_def)
  from False calls none rest show ?thesis
    by (simp only: simp_thms) blast
qed

text \<open>
  An \<^verbatim>\<open>OPTIONS\<close> request; a \<^verbatim>\<open>GET\<close> request, which goes to the upstream in one call; a
  \<^verbatim>\<open>POST\<close> whose JSON body is cut short, which the forwarder answers with 500 before
  any call.
\<close>

theorem options_short_circuit_witness:
  "req_method options_request = ''OPTIONS'' \<and>
   res_status (fst (app_fetch demo_config demo_world options_request)) = 204 \<and>
   snd (app_fetch demo_config demo_world options_request) = [] \<and>
   headers_get ''access-control-allow-origin''
     (res_headers (fst (app_fetch demo_config demo_world options_request))) = Some ''*'' \<and>
   req_method list_request \<noteq> ''OPTIONS'' \<and>
   hd (snd (app_fetch demo_config demo_world list_request)) = ConsoleLog Request_received \<and>
   upstream_calls (snd (app_fetch demo_config demo_world list_request)) =
     [\<lparr>call_url = ''http://192.168.50.90:8283/v1/agents'', call_method = ''GET'',
       call_headers = [(''accept'', ''application/json''),
                       (''Authorization'', ''Bearer sk-letta'')],
       call_body = NoBody\<rparr>] \<and>
   req_method broken_request \<noteq> ''OPTIONS'' \<and>
   upstream_calls (snd (app_fetch demo_config demo_world broken_request)) = [] \<and>
   res_status (fst (app_fetch demo_config demo_world broken_request)) = 500"
proof -
  have m: "req_method options_request = ''OPTIONS''"
    by code_simp
  have n: "req_method list_request \<noteq> ''OPTIONS''"
    by code_simp
  have b: "req_method broken_request \<noteq> ''OPTIONS''"
    by code_simp
  have o: "headers_get ''access-control-allow-origin'' (cors_preflight cors_config options_request) =
             Some ''*''"
    by code_simp
  have u: "URL_new demo_world (req_path list_request) (LETTA_API_URL demo_config) =
             Inr ''http://192.168.50.90:8283/v1/agents''"
    by code_simp
  have h: "remove_headers demo_config (req_headers list_request) =
             [(''accept'', ''application/json''), (''Authorization'', ''Bearer sk-letta'')]"
    by code_simp
  have r: "read_body demo_world (req_method list_request)
             (remove_headers demo_config (req_headers list_request)) (req_body list_request) =
             Inr (NoBody, None)"
    by code_simp
  have g: "req_method list_request = ''GET''"
    by code_simp
  have r': "read_body demo_world ''GET''
             [(''accept'', ''application/json''), (''Authorization'', ''Bearer sk-letta'')]
             (req_body list_request) = Inr (NoBody, None)"
    by code_simp
  have e: "upstream_calls (snd (app_fetch demo_config demo_world broken_request)) = []"
    by code_simp
  note opt = options_short_circuit [of options_request demo_config demo_world]
  note lst = options_short_circuit [of list_request demo_config demo_world]
  note brk = options_short_circuit [of broken_request demo_config demo_world]
  from opt m o have p1: "res_status (fst (app_fetch demo_config demo_world options_request)) = 204 \<and>
      snd (app_fetch demo_config demo_world options_request) = [] \<and>
      headers_get ''access-control-allow-origin''
        (res_headers (fst (app_fetch demo_config demo_world options_request))) = Some ''*''"
    by auto
  from lst n have p2: "hd (snd (app_fetch demo_config demo_world list_request)) =
      ConsoleLog Request_received"
    by auto
  from lst n have "upstream_calls (snd (app_fetch demo_config demo_world list_request)) =
        (case URL_new demo_world (req_path list_request) (LETTA_API_URL demo_config) of
           Inl e \<Rightarrow> []
         | Inr u \<Rightarrow>
             (case read_body demo_world (req_method list_request)
                     (remove_headers demo_config (req_headers list_request))
                     (req_body list_request) of
                Inl e \<Rightarrow> []
              | Inr (b, t) \<Rightarrow>
                  [\<lparr>call_url = u, call_method = req_method list_request,
                    call_headers = remove_headers demo_config (req_headers list_request),
                    call_body = b\<rparr>]))"
    by blast
  then have p3: "upstream_calls (snd (app_fetch demo_config demo_world list_request)) =
     [\<lparr>call_url = ''http://192.168.50.90:8283/v1/agents'', call_method = ''GET'',
       call_headers = [(''accept'', ''application/json''),
                       (''Authorization'', ''Bearer sk-letta'')],
       call_body = NoBody\<rparr>]"
    by (simp only: u r r' h g sum.case prod.case)
  from brk b e have p4: "res_status (fst (app_fetch demo_config demo_world broken_request)) = 500"
    by blast
  from m n b e p1 p2 p3 p4 show ?thesis by blast
qed

section \<open>The target URL\<close>

text \<open>
  \<^verbatim>\<open>forwardRequest\<close> builds the target from \<^verbatim>\<open>c.req.path\<close> and the base URL only: the
  query string of the request has no part in what it does.
\<close>

lemma forward_try_ignores_query:
  "forward_try cfg w (req\<lparr>req_query := q\<rparr>) b = forward_try cfg w req b"
  by (simp add: forward_try_def Let_def cong: sum.case_cong prod.case_cong)

lemma forwardRequest_ignores_query:
  "forwardRequest cfg w (req\<lparr>req_query := q\<rparr>) = forwardRequest cfg w req"
  by (simp add: forwardRequest_def forward_try_ignores_query)

text \<open>
  C2, evaluated where the code departs from it. The claim: the upstream call goes to
  the base URL joined with the original path, the original query string kept. For
  \<^verbatim>\<open>GET /v1/agents?limit=5\<close> and the base \<^verbatim>\<open>http://192.168.50.90:8283\<close> that is
  \<^verbatim>\<open>http://192.168.50.90:8283/v1/agents?limit=5\<close>; the call goes to
  \<^verbatim>\<open>http://192.168.50.90:8283/v1/agents\<close>.
\<close>

theorem forwardRequest_drops_query:
  "req_path list_request = ''/v1/agents'' \<and>
   req_query list_request = ''limit=5'' \<and>
   target_as_specified (LETTA_API_URL demo_config) list_request =
     ''http://192.168.50.90:8283/v1/agents?limit=5'' \<and>
   map call_url (upstream_calls (snd (app_fetch demo_config demo_world list_request))) =
     [''http://192.168.50.90:8283/v1/agents'']"
  by code_simp

section \<open>The headers sent upstream\<close>

text \<open>
  What \<^verbatim>\<open>forwardRequest\<close> does to the headers: \<^verbatim>\<open>Authorization\<close> is removed with
  \<^verbatim>\<open>has\<close> and set from the configured key; \<^verbatim>\<open>host\<close>, \<^verbatim>\<open>connection\<close> and
  \<^verbatim>\<open>content-length\<close> are removed when \<^verbatim>\<open>get\<close> returns a truthy string, so one whose
  value is empty stays; no other header changes (\<open>remove_headers_other\<close>).
\<close>

lemma headers_get_conditional_delete:
  "headers_get n (if truthy_str (headers_get n hs) then headers_delete n hs else hs) =
     (if headers_get n hs = Some '''' then Some '''' else None)"
  by (cases "headers_get n hs") (auto simp: headers_get_delete_same)

lemma remove_headers_result:
  "headers_get ''host'' (remove_headers cfg hs) =
     (if headers_get ''host'' hs = Some '''' then Some '''' else None)"
  "headers_get ''connection'' (remove_headers cfg hs) =
     (if headers_get ''connection'' hs = Some '''' then Some '''' else None)"
  "headers_get ''content-length'' (remove_headers cfg hs) =
     (if headers_get ''content-length'' hs = Some '''' then Some '''' else None)"
  "headers_get ''Authorization'' (remove_headers cfg hs) =
     (case LETTA_API_KEY cfg of
        None \<Rightarrow> None
      | Some key \<Rightarrow> if key \<noteq> [] then Some (''Bearer '' @ key) else None)"
proof -
  define drop where
    "drop n h = (if truthy_str (headers_get n h) then headers_delete n h else h)" for n h
  define auth where
    "auth h = (if headers_has ''Authorization'' h then headers_delete ''Authorization'' h else h)"
    for h
  define fin where
    "fin h = (case LETTA_API_KEY cfg of
                None \<Rightarrow> auth h
              | Some key \<Rightarrow>
                  if key \<noteq> [] then headers_set ''Authorization'' (''Bearer '' @ key) (auth h)
                  else auth h)" for h
  have rh: "remove_headers cfg hs =
              fin (drop ''content-length'' (drop ''connection'' (drop ''host'' hs)))"
    by (simp only: remove_headers_def drop_def fin_def auth_def Let_def)
  have drop_other: "headers_get m (drop n h) = headers_get m h" if "\<not> same_name m n" for m n h
    using that by (simp add: drop_def headers_get_delete_other)
  have drop_same: "headers_get n (drop n h) =
                     (if headers_get n h = Some '''' then Some '''' else None)" for n h
    unfolding drop_def by (rule headers_get_conditional_delete)
  have auth_none: "headers_get ''Authorization'' (auth h) = None"
    and auth_has: "\<not> headers_has ''Authorization'' (auth h)" for h
    by (auto simp: auth_def headers_get_delete_same headers_has_get)
  have auth_other: "headers_get m (auth h) = headers_get m h"
    if "\<not> same_name m ''Authorization''" for m h
    using that by (simp add: auth_def headers_get_delete_other)
  have fin_other: "headers_get m (fin h) = headers_get m h"
    if "\<not> same_name m ''Authorization''" for m h
    using that by (simp add: fin_def auth_other headers_get_set_other split: option.splits)
  have fin_auth: "headers_get ''Authorization'' (fin h) =
     (case LETTA_API_KEY cfg of
        None \<Rightarrow> None
      | Some key \<Rightarrow> if key \<noteq> [] then Some (''Bearer '' @ key) else None)" for h
    by (simp add: fin_def auth_none headers_get_set_new [OF auth_has] split: option.splits)
  have ne: "\<not> same_name ''host'' ''connection''" "\<not> same_name ''host'' ''content-length''"
    "\<not> same_name ''host'' ''Authorization''" "\<not> same_name ''connection'' ''host''"
    "\<not> same_name ''connection'' ''content-length''"
    "\<not> same_name ''connection'' ''Authorization''"
    "\<not> same_name ''content-length'' ''host''"
    "\<not> same_name ''content-length'' ''connection''"
    "\<not> same_name ''content-length'' ''Authorization''"
    by (simp_all add: same_name_def)
  show "headers_get ''host'' (remove_headers cfg hs) =
     (if headers_get ''host'' hs = Some '''' then Some '''' else None)"
    by (simp only: rh fin_other drop_other drop_same ne not_False_eq_True)
  show "headers_get ''connection'' (remove_headers cfg hs) =
     (if headers_get ''connection'' hs = Some '''' then Some '''' else None)"
    by (simp only: rh fin_other drop_other drop_same ne not_False_eq_True)
  show "headers_get ''content-length'' (remove_headers cfg hs) =
     (if headers_get ''content-length'' hs = Some '''' then Some '''' else None)"
    by (simp only: rh fin_other drop_other drop_same ne not_False_eq_True)
  show "headers_get ''Authorization'' (remove_headers cfg hs) =
     (case LETTA_API_KEY cfg of
        None \<Rightarrow> None
      | Some key \<Rightarrow> if key \<noteq> [] then Some (''Bearer '' @ key) else None)"
    by (simp only: rh fin_auth)
qed

text \<open>
  C3, evaluated where the code departs from it. The claim: the headers sent upstream
  never contain \<^verbatim>\<open>host\<close>, \<^verbatim>\<open>connection\<close> or \<^verbatim>\<open>content-length\<close>. A request with the
  header \<^verbatim>\<open>Connection:\<close> of empty value is forwarded with that header.
\<close>

theorem empty_connection_header_forwarded:
  "headers_get ''connection'' (req_headers empty_connection_request) = Some '''' \<and>
   map call_headers
     (upstream_calls (snd (app_fetch demo_config demo_world empty_connection_request))) =
     [[(''connection'', ''''), (''accept'', ''application/json''),
       (''Authorization'', ''Bearer sk-letta'')]]"
  by code_simp

end
